theory Spec2Isabelle
  imports Complex_Main
begin

section \<open>JSON values and the Python operations the code applies to them\<close>

text \<open>
  The repository is a thin integration layer: a client of a tokenization proxy
  (\<^verbatim>\<open>vgs_client.py\<close>), a web handler delegating to the client
  (\<^verbatim>\<open>tokenization_api.py\<close>) and a batch driver (\<^verbatim>\<open>tokenize_pii_vgs.py\<close>).
  All three pass decoded JSON around without a schema, so the values are a tagged
  union.  A Python \<^verbatim>\<open>dict\<close> is an association list in insertion order, read
  with \<open>map_of\<close>; \<^verbatim>\<open>None\<close> is \<open>JNull\<close>.
\<close>

datatype json =
    JNull
  | JBool bool
  | JInt int
  | JFloat real
  | JStr string
  | JArr "json list"
  | JObj "(string \<times> json) list"

type_synonym pydict = "(string \<times> json) list"

text \<open>Truth value of an object, as \<^verbatim>\<open>if x:\<close> and \<^verbatim>\<open>x or y\<close> test it.\<close>

fun truthy :: "json \<Rightarrow> bool" where
  "truthy JNull = False"
| "truthy (JBool b) = b"
| "truthy (JInt i) = (i \<noteq> 0)"
| "truthy (JFloat r) = (r \<noteq> 0)"
| "truthy (JStr s) = (s \<noteq> [])"
| "truthy (JArr xs) = (xs \<noteq> [])"
| "truthy (JObj kvs) = (kvs \<noteq> [])"

fun type_name :: "json \<Rightarrow> string" where
  "type_name JNull = ''NoneType''"
| "type_name (JBool b) = ''bool''"
| "type_name (JInt i) = ''int''"
| "type_name (JFloat r) = ''float''"
| "type_name (JStr s) = ''str''"
| "type_name (JArr xs) = ''list''"
| "type_name (JObj kvs) = ''dict''"

text \<open>\<^verbatim>\<open>d[k] = v\<close>: an existing key keeps its position, a new key goes last.\<close>

fun dict_set :: "pydict \<Rightarrow> string \<Rightarrow> json \<Rightarrow> pydict" where
  "dict_set [] k v = [(k, v)]"
| "dict_set ((k', v') # d) k v = (if k' = k then (k, v) # d else (k', v') # dict_set d k v)"

text \<open>\<^verbatim>\<open>{**d, **e}\<close>: the entries of \<open>e\<close> are stored into \<open>d\<close> one after the other.\<close>

definition dict_merge :: "pydict \<Rightarrow> pydict \<Rightarrow> pydict" where
  "dict_merge d e = foldl (\<lambda>acc (k, v). dict_set acc k v) d e"

text \<open>Decimal text of a natural number, as an f-string prints \<^verbatim>\<open>len(...)\<close>.\<close>

definition digit_char :: "nat \<Rightarrow> char" where
  "digit_char d =
     (if d = 0 then CHR ''0'' else if d = 1 then CHR ''1'' else if d = 2 then CHR ''2''
      else if d = 3 then CHR ''3'' else if d = 4 then CHR ''4'' else if d = 5 then CHR ''5''
      else if d = 6 then CHR ''6'' else if d = 7 then CHR ''7'' else if d = 8 then CHR ''8''
      else CHR ''9'')"

function str_nat :: "nat \<Rightarrow> string" where
  "str_nat n = (if n < 10 then [digit_char n] else str_nat (n div 10) @ [digit_char (n mod 10)])"
  by pat_completeness auto
termination
  by (relation "measure id") auto

declare str_nat.simps [simp del]

section \<open>Exceptions\<close>

text \<open>
  Every \<^verbatim>\<open>raise\<close> of the source is a value: the class of the exception and the text
  \<^verbatim>\<open>str(e)\<close> gives.  \<open>JSONDecodeError\<close> is a subclass of \<open>ValueError\<close> in Python,
  which matters at the one \<^verbatim>\<open>except ValueError\<close> of the client.  The web handler
  raises the framework's \<open>HTTPException\<close>, which carries a status code and a detail.
\<close>

datatype exc_class =
    RuntimeError
  | ValueError
  | JSONDecodeError
  | TypeError
  | AttributeError
  | TransportError
  | HTTPStatusError
  | FileNotFoundError
  | ValidationError

datatype py_error =
    Exc exc_class string
  | HTTPException nat string

fun str_exc :: "py_error \<Rightarrow> string" where
  "str_exc (Exc c m) = m"
| "str_exc (HTTPException st d) = str_nat st @ '': '' @ d"

section \<open>The world outside the process\<close>

text \<open>
  An HTTP call is the only effect of the client.  A request is what
  \<^verbatim>\<open>httpx.Client(timeout=...).post(url, headers=..., json=...)\<close> is given; the
  outcome is either a transport failure or a response with a status code and a body
  text.  The world holds the process environment, the files, the lines printed,
  the state of the remote side and the log of every exchange made so far (oldest
  first), so that which calls a run issues is a fact about the world it returns.
\<close>

record request =
  req_url :: string
  req_headers :: pydict
  req_json :: json
  req_timeout :: real

datatype http_outcome =
    ConnectFailure string
  | Response nat string

record 's world =
  environ :: "string \<rightharpoonup> string"
  files :: "string \<rightharpoonup> json list"
  stdout :: "string list"
  upstream :: 's
  traffic :: "(request \<times> http_outcome) list"

text \<open>
  What the libraries and the remote side do is not code of this repository; it is a
  parameter of every operation: the JSON decoder (\<^verbatim>\<open>json.loads\<close>, also behind
  \<^verbatim>\<open>resp.json()\<close>), Python's \<^verbatim>\<open>float(str)\<close>, the text of the error
  \<^verbatim>\<open>raise_for_status\<close> raises for a status and a URL, the text of the error the
  response model raises for a list it refuses, and the remote side, which answers a
  request from its state.  The two parsers return \<open>Inl\<close> with the
  message of their \<open>ValueError\<close> on malformed text.
\<close>

record 's platform =
  json_loads :: "string \<Rightarrow> string + json"
  float_parse :: "string \<Rightarrow> string + real"
  status_message :: "nat \<Rightarrow> string \<Rightarrow> string"
  validation_message :: "json list \<Rightarrow> string"
  remote :: "request \<Rightarrow> 's \<Rightarrow> http_outcome \<times> 's"

definition http_post :: "'s platform \<Rightarrow> request \<Rightarrow> 's world \<Rightarrow> http_outcome \<times> 's world" where
  "http_post P rq w =
     (case remote P rq (upstream w) of
        (res, s') \<Rightarrow> (res, w\<lparr>upstream := s', traffic := traffic w @ [(rq, res)]\<rparr>))"

text \<open>\<^verbatim>\<open>raise_for_status\<close> lets the 2xx responses through.\<close>

definition is_success :: "nat \<Rightarrow> bool" where
  "is_success st = (200 \<le> st \<and> st < 300)"

section \<open>The proxy client (\<^verbatim>\<open>vgs_client.py\<close>)\<close>

record VGSClient =
  base :: string
  path :: string
  headers :: json
  timeout :: real

definition rstrip_slash :: "string \<Rightarrow> string" where
  "rstrip_slash s = rev (dropWhile (\<lambda>c. c = CHR ''/'') (rev s))"

text \<open>
  \<^verbatim>\<open>__init__\<close>.  \<open>extra_headers\<close> is annotated as an optional dict, but
  \<^verbatim>\<open>from_env\<close> passes whatever the decoder returned, so it is any JSON value here;
  \<^verbatim>\<open>extra_headers or {}\<close> replaces every false value by the empty dict.
\<close>

definition VGSClient_init :: "string \<Rightarrow> string \<Rightarrow> json \<Rightarrow> real \<Rightarrow> VGSClient" where
  "VGSClient_init proxy_url route_path extra_headers tmo =
     \<lparr> base = rstrip_slash proxy_url,
       path = (if take 1 route_path = ''/'' then route_path else ''/'' @ route_path),
       headers = (if truthy extra_headers then extra_headers else JObj []),
       timeout = tmo \<rparr>"

definition endpoint :: "VGSClient \<Rightarrow> string" where
  "endpoint c = base c @ path c"

text \<open>
  \<^verbatim>\<open>tokenize_json\<close>.  Building the header dict fails before anything is sent when
  the configured headers are not a mapping.  A transport failure and a non-2xx status
  are \<^verbatim>\<open>httpx.HTTPError\<close>s; only then is the body decoded.
\<close>

definition client_request :: "VGSClient \<Rightarrow> pydict \<Rightarrow> json \<Rightarrow> request" where
  "client_request c extra payload =
     \<lparr> req_url = endpoint c,
       req_headers = dict_merge [(''Content-Type'', JStr ''application/json'')] extra,
       req_json = payload,
       req_timeout = timeout c \<rparr>"

definition tokenize_json :: "'s platform \<Rightarrow> VGSClient \<Rightarrow> json \<Rightarrow> 's world \<Rightarrow> (py_error + json) \<times> 's world" where
  "tokenize_json P c payload w =
     (case headers c of
        JObj extra \<Rightarrow>
          (case http_post P (client_request c extra payload) w of
             (ConnectFailure m, w') \<Rightarrow> (Inl (Exc TransportError m), w')
           | (Response st body, w') \<Rightarrow>
               if \<not> is_success st
               then (Inl (Exc HTTPStatusError (status_message P st (endpoint c))), w')
               else (case json_loads P body of
                       Inr v \<Rightarrow> (Inr v, w')
                     | Inl m \<Rightarrow> (Inl (Exc ValueError (''VGS response was not JSON: '' @ take 200 body)), w')))
      | other \<Rightarrow>
          (Inl (Exc TypeError ([CHR 0x27] @ type_name other @ [CHR 0x27] @ '' object is not a mapping'')), w))"

text \<open>
  \<^verbatim>\<open>tokenize_records\<close>.  Both \<^verbatim>\<open>if batch_key\<close> tests select the keyed path
  by the truth value of the key: \<open>keyed\<close> gives the key on that path.  The
  membership test and \<^verbatim>\<open>.get\<close> are one lookup in the decoded dict.
\<close>

fun keyed :: "string option \<Rightarrow> string option" where
  "keyed None = None"
| "keyed (Some k) = (if k = [] then None else Some k)"

definition tokenize_records ::
  "'s platform \<Rightarrow> VGSClient \<Rightarrow> json list \<Rightarrow> string option \<Rightarrow> 's world \<Rightarrow> (py_error + json list) \<times> 's world" where
  "tokenize_records P c records batch_key w =
     (case tokenize_json P c
             (case keyed batch_key of Some k \<Rightarrow> JObj [(k, JArr records)] | None \<Rightarrow> JArr records) w of
        (Inl e, w') \<Rightarrow> (Inl e, w')
      | (Inr transformed, w') \<Rightarrow>
          (case (case keyed batch_key of
                   Some k \<Rightarrow>
                     (case transformed of
                        JObj kvs \<Rightarrow>
                          (case map_of kvs k of
                             None \<Rightarrow> Inl (Exc ValueError ''Unexpected VGS response shape for batch_key mode'')
                           | Some v \<Rightarrow> Inr v)
                      | other \<Rightarrow> Inl (Exc ValueError ''Unexpected VGS response shape for batch_key mode''))
                 | None \<Rightarrow> Inr transformed) of
             Inl e \<Rightarrow> (Inl e, w')
           | Inr (JArr out) \<Rightarrow> (Inr out, w')
           | Inr other \<Rightarrow> (Inl (Exc ValueError ''VGS response is not a list of records''), w')))"

text \<open>
  \<^verbatim>\<open>tokenize_records\<close> as the specification words it, for comparison with the
  definition above: the keyed path is taken whenever a \<open>batch_key\<close> is given.  The
  request goes out through the same \<open>tokenize_json\<close>.
\<close>

definition spec_tokenize_records ::
  "'s platform \<Rightarrow> VGSClient \<Rightarrow> json list \<Rightarrow> string option \<Rightarrow> 's world \<Rightarrow> (py_error + json list) \<times> 's world" where
  "spec_tokenize_records P c records batch_key w =
     (case tokenize_json P c
             (case batch_key of Some k \<Rightarrow> JObj [(k, JArr records)] | None \<Rightarrow> JArr records) w of
        (Inl e, w') \<Rightarrow> (Inl e, w')
      | (Inr response, w') \<Rightarrow>
          (case batch_key of
             Some k \<Rightarrow>
               (case response of
                  JObj kvs \<Rightarrow>
                    (case map_of kvs k of
                       None \<Rightarrow> Inl (Exc ValueError ''Unexpected VGS response shape for batch_key mode'')
                     | Some (JArr out) \<Rightarrow> Inr out
                     | Some other \<Rightarrow> Inl (Exc ValueError ''VGS response is not a list of records''))
                | other \<Rightarrow> Inl (Exc ValueError ''Unexpected VGS response shape for batch_key mode''))
           | None \<Rightarrow>
               (case response of
                  JArr out \<Rightarrow> Inr out
                | other \<Rightarrow> Inl (Exc ValueError ''VGS response is not a list of records'')),
           w'))"


text \<open>
  \<^verbatim>\<open>from_env\<close>.  \<^verbatim>\<open>os.environ.get\<close> is a lookup in the environment; the
  headers variable is decoded only when it is set and not empty.
\<close>

definition from_env :: "'s platform \<Rightarrow> (string \<rightharpoonup> string) \<Rightarrow> py_error + VGSClient" where
  "from_env P env =
     (case env ''VGS_PROXY_URL'' of
        None \<Rightarrow> Inl (Exc RuntimeError ''VGS_PROXY_URL is not set'')
      | Some proxy \<Rightarrow>
          if proxy = [] then Inl (Exc RuntimeError ''VGS_PROXY_URL is not set'')
          else
            (case (case env ''VGS_HEADERS_JSON'' of
                     None \<Rightarrow> Inr JNull
                   | Some hdrs \<Rightarrow>
                       if hdrs = [] then Inr JNull
                       else (case json_loads P hdrs of
                               Inl m \<Rightarrow> Inl (Exc JSONDecodeError m)
                             | Inr v \<Rightarrow> Inr v)) of
               Inl e \<Rightarrow> Inl e
             | Inr hs \<Rightarrow>
                 (case float_parse P (case env ''VGS_TIMEOUT'' of None \<Rightarrow> ''30'' | Some t \<Rightarrow> t) of
                    Inl m \<Rightarrow> Inl (Exc ValueError m)
                  | Inr tmo \<Rightarrow>
                      Inr (VGSClient_init proxy
                             (case env ''VGS_ROUTE_PATH'' of None \<Rightarrow> ''/post'' | Some r \<Rightarrow> r)
                             hs tmo))))"

section \<open>The web handler (\<^verbatim>\<open>tokenization_api.py\<close>)\<close>

text \<open>
  The two models are typed: the framework hands the handler a request whose records
  are dicts, and constructing the response model validates \<^verbatim>\<open>List[Dict[str, Any]]\<close>:
  a list with an element that is not a dict is refused with a validation error.
\<close>

record TokenizeRequest =
  req_records :: "pydict list"
  req_batch_key :: "string option"

record TokenizeResponse =
  res_records :: "pydict list"

fun as_dict :: "json \<Rightarrow> pydict option" where
  "as_dict (JObj kvs) = Some kvs"
| "as_dict other = None"

definition TokenizeResponse_init :: "'s platform \<Rightarrow> json list \<Rightarrow> py_error + TokenizeResponse" where
  "TokenizeResponse_init P out =
     (if list_all (\<lambda>v. as_dict v \<noteq> None) out
      then Inr \<lparr> res_records = map (\<lambda>v. the (as_dict v)) out \<rparr>
      else Inl (Exc ValidationError (validation_message P out)))"

text \<open>\<^verbatim>\<open>health\<close> reads nothing and calls nothing: the world it returns is the one it got.\<close>

definition health :: "'s world \<Rightarrow> pydict \<times> 's world" where
  "health w = ([(''status'', JStr ''ok'')], w)"

text \<open>
  \<^verbatim>\<open>tokenize\<close>.  Each \<^verbatim>\<open>except Exception\<close> catches every error of its block; the
  construction of the response is outside both blocks.
\<close>

definition tokenize :: "'s platform \<Rightarrow> TokenizeRequest \<Rightarrow> 's world \<Rightarrow> (py_error + TokenizeResponse) \<times> 's world" where
  "tokenize P req w =
     (case from_env P (environ w) of
        Inl e \<Rightarrow> (Inl (HTTPException 500 (''VGS client init failed: '' @ str_exc e)), w)
      | Inr client \<Rightarrow>
          (case tokenize_records P client (map JObj (req_records req)) (req_batch_key req) w of
             (Inl e, w') \<Rightarrow> (Inl (HTTPException 502 (''VGS tokenization failed: '' @ str_exc e)), w')
           | (Inr out, w') \<Rightarrow> (TokenizeResponse_init P out, w')))"

text \<open>
  What the framework sends for the outcome of a handler: the returned model as JSON
  with status 200, an \<open>HTTPException\<close> as its status with the detail, and any other
  exception as a plain 500.
\<close>

datatype http_reply =
    JsonReply nat json
  | TextReply nat string

fun reply_of :: "py_error + TokenizeResponse \<Rightarrow> http_reply" where
  "reply_of (Inr r) = JsonReply 200 (JObj [(''records'', JArr (map JObj (res_records r)))])"
| "reply_of (Inl (HTTPException st d)) = JsonReply st (JObj [(''detail'', JStr d)])"
| "reply_of (Inl (Exc c m)) = TextReply 500 ''Internal Server Error''"

section \<open>The batch driver (\<^verbatim>\<open>tokenize_pii_vgs.py\<close>)\<close>

text \<open>
  \<^verbatim>\<open>post_tokenize\<close>.  \<^verbatim>\<open>data.get\<close> exists on a dict only; on a dict without
  the key it gives the default, the empty list.
\<close>

definition api_request :: "string \<Rightarrow> json list \<Rightarrow> string option \<Rightarrow> real \<Rightarrow> request" where
  "api_request api records batch_key tmo =
     \<lparr> req_url = api,
       req_headers = [],
       req_json = JObj ((''records'', JArr records) #
                    (case keyed batch_key of Some k \<Rightarrow> [(''batch_key'', JStr k)] | None \<Rightarrow> [])),
       req_timeout = tmo \<rparr>"

definition post_tokenize ::
  "'s platform \<Rightarrow> json list \<Rightarrow> string \<Rightarrow> string option \<Rightarrow> real \<Rightarrow> 's world \<Rightarrow> (py_error + json) \<times> 's world" where
  "post_tokenize P records api batch_key tmo w =
     (case http_post P (api_request api records batch_key tmo) w of
        (ConnectFailure m, w') \<Rightarrow> (Inl (Exc TransportError m), w')
      | (Response st body, w') \<Rightarrow>
          if \<not> is_success st then (Inl (Exc HTTPStatusError (status_message P st api)), w')
          else (case json_loads P body of
                  Inl m \<Rightarrow> (Inl (Exc JSONDecodeError m), w')
                | Inr (JObj kvs) \<Rightarrow>
                    (Inr (case map_of kvs ''records'' of None \<Rightarrow> JArr [] | Some v \<Rightarrow> v), w')
                | Inr other \<Rightarrow>
                    (Inl (Exc AttributeError
                            ([CHR 0x27] @ type_name other @ [CHR 0x27] @ '' object has no attribute ''
                               @ [CHR 0x27] @ ''get'' @ [CHR 0x27])), w')))"

text \<open>
  \<^verbatim>\<open>len\<close> and the iteration of \<^verbatim>\<open>list.extend\<close> on what \<^verbatim>\<open>post_tokenize\<close>
  returned, which is a list only when the response says so.
\<close>

fun py_len :: "json \<Rightarrow> py_error + nat" where
  "py_len (JArr xs) = Inr (length xs)"
| "py_len (JStr s) = Inr (length s)"
| "py_len (JObj kvs) = Inr (length kvs)"
| "py_len other =
     Inl (Exc TypeError (''object of type '' @ [CHR 0x27] @ type_name other @ [CHR 0x27] @ '' has no len()''))"

fun py_iter :: "json \<Rightarrow> json list" where
  "py_iter (JArr xs) = xs"
| "py_iter (JStr s) = map (\<lambda>c. JStr [c]) s"
| "py_iter (JObj kvs) = map (\<lambda>kv. JStr (fst kv)) kvs"
| "py_iter other = []"

text \<open>
  \<^verbatim>\<open>range(0, n, step)\<close> for a positive step: \<open>range_up 0 n step\<close>.  A negative
  step gives the empty range, and a zero step is an error raised by \<^verbatim>\<open>range\<close>.
\<close>

function range_up :: "nat \<Rightarrow> nat \<Rightarrow> nat \<Rightarrow> nat list" where
  "range_up i n step = (if step = 0 \<or> n \<le> i then [] else i # range_up (i + step) n step)"
  by pat_completeness auto
termination
  by (relation "measure (\<lambda>(i, n, step). n - i)") auto

declare range_up.simps [simp del]

text \<open>
  One pass of the loop of \<^verbatim>\<open>main\<close> after the slice is taken: the call, the count
  check and the extension of \<open>out_rows\<close>.
\<close>

definition count_mismatch :: "nat \<Rightarrow> nat \<Rightarrow> py_error" where
  "count_mismatch got expected =
     Exc RuntimeError (''Tokenization API returned '' @ str_nat got @ '' records, expected '' @ str_nat expected)"

definition loop_body ::
  "'s platform \<Rightarrow> string \<Rightarrow> json list \<Rightarrow> json list \<Rightarrow> 's world \<Rightarrow> (py_error + json list) \<times> 's world" where
  "loop_body P api recs out_rows w =
     (case post_tokenize P recs api None 30 w of
        (Inl e, w') \<Rightarrow> (Inl e, w')
      | (Inr toks, w') \<Rightarrow>
          (case py_len toks of
             Inl e \<Rightarrow> (Inl e, w')
           | Inr l \<Rightarrow>
               if l \<noteq> length recs then (Inl (count_mismatch l (length recs)), w')
               else (Inr (out_rows @ py_iter toks), w')))"

text \<open>
  The loop over the range.  A data frame is the list of its row records, which is
  what \<^verbatim>\<open>to_dict(orient="records")\<close> gives; \<^verbatim>\<open>df.iloc[i:i+bsize]\<close> is
  \<open>take bsize (drop i df)\<close>.
\<close>

fun for_batches ::
  "'s platform \<Rightarrow> string \<Rightarrow> nat \<Rightarrow> json list \<Rightarrow> nat list \<Rightarrow> json list \<Rightarrow> 's world
     \<Rightarrow> (py_error + json list) \<times> 's world" where
  "for_batches P api bsize df [] out_rows w = (Inr out_rows, w)"
| "for_batches P api bsize df (i # rest) out_rows w =
     (case loop_body P api (take bsize (drop i df)) out_rows w of
        (Inl e, w') \<Rightarrow> (Inl e, w')
      | (Inr out_rows', w') \<Rightarrow> for_batches P api bsize df rest out_rows' w')"

record args =
  arg_input :: string
  arg_output :: string
  batch_size :: int
  api_url :: string

text \<open>
  \<^verbatim>\<open>main\<close>, from the parsed arguments on.  A file holds the row records of its
  table.  The output is written and the summary printed only after the loop has
  ended without an error.
\<close>

definition main :: "'s platform \<Rightarrow> args \<Rightarrow> 's world \<Rightarrow> (py_error + int) \<times> 's world" where
  "main P a w =
     (case files w (arg_input a) of
        None \<Rightarrow>
          (Inl (Exc FileNotFoundError
                  (''[Errno 2] No such file or directory: '' @ [CHR 0x27] @ arg_input a @ [CHR 0x27])), w)
      | Some df \<Rightarrow>
          if batch_size a = 0 then (Inl (Exc ValueError ''range() arg 3 must not be zero''), w)
          else
            (case for_batches P (api_url a) (nat (batch_size a)) df
                    (if 0 < batch_size a then range_up 0 (length df) (nat (batch_size a)) else [])
                    [] w of
               (Inl e, w') \<Rightarrow> (Inl e, w')
             | (Inr out_rows, w') \<Rightarrow>
                 (Inr 0,
                  w'\<lparr> files := (files w')(arg_output a \<mapsto> out_rows),
                      stdout := stdout w' @
                        [''Tokenized '' @ str_nat (length out_rows) @ '' rows -> '' @ arg_output a] \<rparr>)))"

text \<open>
  The batches of a run, for comparison with the loop: the slice taken at each index
  of the range, in order.  And the rows a response contributes to \<open>out_rows\<close>: what
  \<^verbatim>\<open>post_tokenize\<close> reads out of it, iterated.
\<close>

definition batches :: "nat \<Rightarrow> json list \<Rightarrow> json list list" where
  "batches bsize df = map (\<lambda>i. take bsize (drop i df)) (range_up 0 (length df) bsize)"

definition response_rows :: "'s platform \<Rightarrow> http_outcome \<Rightarrow> json list" where
  "response_rows P res =
     (case res of
        Response st body \<Rightarrow>
          (case json_loads P body of
             Inr (JObj kvs) \<Rightarrow> py_iter (case map_of kvs ''records'' of None \<Rightarrow> JArr [] | Some v \<Rightarrow> v)
           | other \<Rightarrow> [])
      | ConnectFailure m \<Rightarrow> [])"

text \<open>
  The calls of a run, described from the remote side alone, for comparison with the
  loop.  A reply to a batch is accepted when it has a 2xx status and a body that
  decodes to an object whose \<open>records\<close> value (the empty list when the key is
  missing) has as many elements as the batch has rows.  \<open>run_calls\<close> asks the
  remote side once per batch, in order, each time from the state the call before
  left, and stops after the first reply that is not accepted; it gives the exchanges
  and the state the remote side ends in.
\<close>

definition reply_accepted :: "'s platform \<Rightarrow> json list \<Rightarrow> http_outcome \<Rightarrow> bool" where
  "reply_accepted P recs res =
     (case res of
        Response st body \<Rightarrow>
          is_success st \<and>
          (case json_loads P body of
             Inr (JObj kvs) \<Rightarrow>
               py_len (case map_of kvs ''records'' of None \<Rightarrow> JArr [] | Some v \<Rightarrow> v) = Inr (length recs)
           | other \<Rightarrow> False)
      | ConnectFailure m \<Rightarrow> False)"

fun run_calls ::
  "'s platform \<Rightarrow> string \<Rightarrow> json list list \<Rightarrow> 's \<Rightarrow> (request \<times> http_outcome) list \<times> 's" where
  "run_calls P api [] s = ([], s)"
| "run_calls P api (b # rest) s =
     (case remote P (api_request api b None 30) s of
        (res, s') \<Rightarrow>
          if reply_accepted P b res
          then (case run_calls P api rest s' of
                  (ex, s'') \<Rightarrow> ((api_request api b None 30, res) # ex, s''))
          else ([(api_request api b None 30, res)], s'))"

section \<open>Concrete platforms for the examples\<close>

text \<open>
  The examples below run the operations on a small platform: a decoder that knows a
  handful of JSON texts and refuses every other text, a number parser that knows two
  numerals, and a remote side that is either a fixed answer or a tokenizer that
  answers a batch of records with as many token records.
\<close>

definition demo_loads :: "string \<Rightarrow> string + json" where
  \<open>demo_loads s =
     (if s = ''[]'' then Inr (JArr [])
      else if s = ''[1]'' then Inr (JArr [JInt 1])
      else if s = ''[{"card": "tok_1"}]'' then Inr (JArr [JObj [(''card'', JStr ''tok_1'')]])
      else if s = ''{"x": []}'' then Inr (JObj [(''x'', JArr [])])
      else if s = ''{"detail": "down"}'' then Inr (JObj [(''detail'', JStr ''down'')])
      else if s = ''{"records": [{"card": "tok"}]}''
        then Inr (JObj [(''records'', JArr [JObj [(''card'', JStr ''tok'')]])])
      else if s = ''{"records": [{"card": "tok"}, {"card": "tok"}]}''
        then Inr (JObj [(''records'', JArr [JObj [(''card'', JStr ''tok'')], JObj [(''card'', JStr ''tok'')]])])
      else Inl ''Expecting value: line 1 column 1 (char 0)'')\<close>

definition demo_float :: "string \<Rightarrow> string + real" where
  "demo_float s =
     (if s = ''30'' then Inr 30
      else if s = ''5'' then Inr 5
      else Inl (''could not convert string to float: '' @ [CHR 0x27] @ s @ [CHR 0x27]))"

definition demo_platform :: "(request \<Rightarrow> 's \<Rightarrow> http_outcome \<times> 's) \<Rightarrow> 's platform" where
  "demo_platform r =
     \<lparr> json_loads = demo_loads,
       float_parse = demo_float,
       status_message = (\<lambda>st url. ''status '' @ str_nat st @ '' for url '' @ url),
       validation_message = (\<lambda>out. ''validation error for TokenizeResponse''),
       remote = r \<rparr>"

definition answering :: "http_outcome \<Rightarrow> unit platform" where
  "answering res = demo_platform (\<lambda>rq s. (res, s))"

text \<open>A remote side that returns the bare array it was sent when that array is empty.\<close>

definition echo_remote :: "request \<Rightarrow> unit \<Rightarrow> http_outcome \<times> unit" where
  "echo_remote rq s =
     (case req_json rq of
        JArr [] \<Rightarrow> (Response 200 ''[]'', s)
      | other \<Rightarrow> (Response 400 ''unsupported'', s))"

text \<open>A tokenization API that counts its calls and answers one or two records in kind.\<close>

definition token_api :: "request \<Rightarrow> nat \<Rightarrow> http_outcome \<times> nat" where
  \<open>token_api rq calls =
     (case req_json rq of
        JObj [(k, JArr [r1])] \<Rightarrow> (Response 200 ''{"records": [{"card": "tok"}]}'', Suc calls)
      | JObj [(k, JArr [r1, r2])] \<Rightarrow>
          (Response 200 ''{"records": [{"card": "tok"}, {"card": "tok"}]}'', Suc calls)
      | other \<Rightarrow> (Response 422 ''{"detail": "down"}'', Suc calls))\<close>

text \<open>An API that answers its first call in kind and every later call with one record.\<close>

definition flaky_api :: "request \<Rightarrow> nat \<Rightarrow> http_outcome \<times> nat" where
  \<open>flaky_api rq calls =
     (if calls = 0 then token_api rq calls
      else (Response 200 ''{"records": [{"card": "tok"}]}'', Suc calls))\<close>

definition demo_client :: VGSClient where
  "demo_client = VGSClient_init ''https://vault.example/'' ''post'' JNull 30"

definition demo_world :: "(string \<rightharpoonup> string) \<Rightarrow> (string \<rightharpoonup> json list) \<Rightarrow> 's \<Rightarrow> 's world" where
  "demo_world env fs s = \<lparr> environ = env, files = fs, stdout = [], upstream = s, traffic = [] \<rparr>"

definition vault_env :: "string \<rightharpoonup> string" where
  "vault_env = [''VGS_PROXY_URL'' \<mapsto> ''https://vault.example/'']"

definition demo_args :: args where
  "demo_args = \<lparr> arg_input = ''in.csv'', arg_output = ''out.csv'', batch_size = 2,
                 api_url = ''http://127.0.0.1:8080/tokenize'' \<rparr>"

definition card_rows :: "json list" where
  "card_rows = map (\<lambda>n. JObj [(''card'', JInt n)]) [4111, 4222, 4333, 4444, 4555]"

section \<open>Shared facts\<close>

lemmas demo_eval =
  tokenize_records_def tokenize_json_def http_post_def demo_platform_def answering_def echo_remote_def
  demo_client_def VGSClient_init_def demo_world_def client_request_def is_success_def demo_loads_def
  rstrip_slash_def endpoint_def dict_merge_def

lemmas api_eval =
  tokenize_def TokenizeResponse_init_def from_env_def vault_env_def demo_float_def
  str_nat.simps digit_char_def

text \<open>
  What \<open>tokenize_json\<close> gives once the remote side has answered with a 2xx status:
  the decoded body, or the decode error with the head of the body.
\<close>

lemma tokenize_json_answer:
  assumes "headers c = JObj extra"
    and "remote P (client_request c extra payload) (upstream w) = (Response st body, s')"
    and "is_success st"
  shows "tokenize_json P c payload w =
           (case json_loads P body of
              Inr v \<Rightarrow> Inr v
            | Inl m \<Rightarrow> Inl (Exc ValueError (''VGS response was not JSON: '' @ take 200 body)),
            w\<lparr>upstream := s',
               traffic := traffic w @ [(client_request c extra payload, Response st body)]\<rparr>)"
  using assms by (simp add: tokenize_json_def http_post_def split: sum.split)

section \<open>The proxy client: request and response shapes\<close>

text \<open>
  C1 (as amended).  For every record sequence and every \<open>batch_key\<close> that is absent
  or a non-empty string, \<open>tokenize_records\<close> does what the specification says: it
  sends \<open>{batch_key: records}\<close> when the key is given and the bare sequence
  otherwise; an error of the call is passed on; in keyed mode a response that is not
  a mapping holding the key is refused with the \<open>ValueError\<close> "Unexpected VGS
  response shape for batch_key mode" and otherwise the value at the key is taken; in
  both modes a value that is not a list is refused with the \<open>ValueError\<close> "VGS
  response is not a list of records", and a list is returned whatever its length.
  The specified behaviour is \<open>spec_tokenize_records\<close>.
\<close>

theorem tokenize_records_as_specified:
  assumes "batch_key \<noteq> Some []"
  shows "tokenize_records P c records batch_key w = spec_tokenize_records P c records batch_key w"
proof (cases batch_key)
  case None
  then show ?thesis
    by (simp add: tokenize_records_def spec_tokenize_records_def split: prod.split sum.split json.split)
next
  case (Some k)
  with assms have "k \<noteq> []" by simp
  with Some show ?thesis
    by (simp add: tokenize_records_def spec_tokenize_records_def
        split: prod.split sum.split json.split option.split)
qed

text \<open>
  The example of the specification: with \<open>batch_key = "records"\<close> and the response
  \<open>{"x": []}\<close> the call sends \<open>{"records": []}\<close> and fails on the shape.
\<close>

theorem tokenize_records_as_specified_witness:
  \<open>Some ''records'' \<noteq> Some [] \<and>
   tokenize_records (answering (Response 200 ''{"x": []}'')) demo_client [] (Some ''records'')
       (demo_world Map.empty Map.empty ())
     = spec_tokenize_records (answering (Response 200 ''{"x": []}'')) demo_client [] (Some ''records'')
       (demo_world Map.empty Map.empty ()) \<and>
   tokenize_records (answering (Response 200 ''{"x": []}'')) demo_client [] (Some ''records'')
       (demo_world Map.empty Map.empty ())
     = (Inl (Exc ValueError ''Unexpected VGS response shape for batch_key mode''),
        \<lparr> environ = Map.empty, files = Map.empty, stdout = [], upstream = (),
          traffic = [(\<lparr> req_url = ''https://vault.example/post'',
                         req_headers = [(''Content-Type'', JStr ''application/json'')],
                         req_json = JObj [(''records'', JArr [])],
                         req_timeout = 30 \<rparr>,
                      Response 200 ''{"x": []}'')] \<rparr>)\<close>
proof -
  have h: "Some ''records'' \<noteq> Some []" by simp
  show ?thesis
    using tokenize_records_as_specified [OF h,
        of "answering (Response 200 [CHR 0x7B, CHR 0x22, CHR ''x'', CHR 0x22, CHR '':'', CHR '' '',
                                     CHR ''['', CHR '']'', CHR 0x7D])"
           demo_client "[]" "demo_world Map.empty Map.empty ()"]
    by (simp add: demo_eval)
qed

text \<open>
  C1 as stated fails for the given but empty key: with \<open>batch_key = ""\<close> the code and
  the specified behaviour differ; the code sends the bare array \<open>[]\<close>, not
  \<open>{"": []}\<close>, and accepts the bare array that comes back.
\<close>

theorem tokenize_records_empty_key_counterexample:
  \<open>tokenize_records (demo_platform echo_remote) demo_client [] (Some [])
      (demo_world Map.empty Map.empty ())
     \<noteq> spec_tokenize_records (demo_platform echo_remote) demo_client [] (Some [])
      (demo_world Map.empty Map.empty ())
   \<and> map (\<lambda>x. req_json (fst x))
      (traffic (snd (tokenize_records (demo_platform echo_remote) demo_client [] (Some [])
                       (demo_world Map.empty Map.empty ()))))
     = [JArr []]
   \<and> fst (tokenize_records (demo_platform echo_remote) demo_client [] (Some [])
            (demo_world Map.empty Map.empty ())) = Inr []\<close>
  by (simp add: demo_eval spec_tokenize_records_def)

text \<open>
  C9.  For every record sequence, \<open>tokenize_records\<close> with \<open>batch_key = ""\<close> is
  \<open>tokenize_records\<close> with \<open>batch_key = None\<close>, and it is the bare mode: the one
  request made carries the bare array \<open>records\<close> as its payload, and the response
  is parsed bare, that is, a decoded list is returned as it is and any other decoded
  value, an object with the key \<open>""\<close> included, is refused as not a list.
\<close>

theorem tokenize_records_empty_key_is_bare:
  "tokenize_records P c records (Some []) w = tokenize_records P c records None w
   \<and> (headers c = JObj extra \<longrightarrow>
        tokenize_records P c records (Some []) w =
          (case fst (remote P (client_request c extra (JArr records)) (upstream w)) of
             ConnectFailure m \<Rightarrow> Inl (Exc TransportError m)
           | Response st body \<Rightarrow>
               if \<not> is_success st then Inl (Exc HTTPStatusError (status_message P st (endpoint c)))
               else (case json_loads P body of
                       Inl m \<Rightarrow> Inl (Exc ValueError (''VGS response was not JSON: '' @ take 200 body))
                     | Inr (JArr out) \<Rightarrow> Inr out
                     | Inr other \<Rightarrow> Inl (Exc ValueError ''VGS response is not a list of records'')),
           w\<lparr>upstream := snd (remote P (client_request c extra (JArr records)) (upstream w)),
              traffic := traffic w @
                [(client_request c extra (JArr records),
                  fst (remote P (client_request c extra (JArr records)) (upstream w)))]\<rparr>))"
proof (intro conjI impI)
  show "tokenize_records P c records (Some []) w = tokenize_records P c records None w"
    by (simp add: tokenize_records_def split: prod.split sum.split)
next
  assume h: "headers c = JObj extra"
  obtain res s' where r: "remote P (client_request c extra (JArr records)) (upstream w) = (res, s')"
    by (cases "remote P (client_request c extra (JArr records)) (upstream w)")
  show "tokenize_records P c records (Some []) w =
          (case fst (remote P (client_request c extra (JArr records)) (upstream w)) of
             ConnectFailure m \<Rightarrow> Inl (Exc TransportError m)
           | Response st body \<Rightarrow>
               if \<not> is_success st then Inl (Exc HTTPStatusError (status_message P st (endpoint c)))
               else (case json_loads P body of
                       Inl m \<Rightarrow> Inl (Exc ValueError (''VGS response was not JSON: '' @ take 200 body))
                     | Inr (JArr out) \<Rightarrow> Inr out
                     | Inr other \<Rightarrow> Inl (Exc ValueError ''VGS response is not a list of records'')),
           w\<lparr>upstream := snd (remote P (client_request c extra (JArr records)) (upstream w)),
              traffic := traffic w @
                [(client_request c extra (JArr records),
                  fst (remote P (client_request c extra (JArr records)) (upstream w)))]\<rparr>)"
    using h r
    by (simp add: tokenize_records_def tokenize_json_def http_post_def
        split: http_outcome.split sum.split json.split)
qed

text \<open>
  One record sent with the empty key: the request on the wire holds the bare array,
  a list that comes back is returned, and an object that comes back is refused.
\<close>

theorem tokenize_records_empty_key_is_bare_witness:
  \<open>tokenize_records (answering (Response 200 ''[{"card": "tok_1"}]'')) demo_client
       [JObj [(''card'', JInt 4111)]] (Some []) (demo_world Map.empty Map.empty ())
     = (Inr [JObj [(''card'', JStr ''tok_1'')]],
        \<lparr> environ = Map.empty, files = Map.empty, stdout = [], upstream = (),
          traffic = [(\<lparr> req_url = ''https://vault.example/post'',
                         req_headers = [(''Content-Type'', JStr ''application/json'')],
                         req_json = JArr [JObj [(''card'', JInt 4111)]],
                         req_timeout = 30 \<rparr>,
                      Response 200 ''[{"card": "tok_1"}]'')] \<rparr>)
   \<and> tokenize_records (answering (Response 200 ''[{"card": "tok_1"}]'')) demo_client
       [JObj [(''card'', JInt 4111)]] None (demo_world Map.empty Map.empty ())
     = tokenize_records (answering (Response 200 ''[{"card": "tok_1"}]'')) demo_client
       [JObj [(''card'', JInt 4111)]] (Some []) (demo_world Map.empty Map.empty ())
   \<and> fst (tokenize_records (answering (Response 200 ''{"x": []}'')) demo_client
            [JObj [(''card'', JInt 4111)]] (Some []) (demo_world Map.empty Map.empty ()))
     = Inl (Exc ValueError ''VGS response is not a list of records'')\<close>
proof -
  have h: "headers demo_client = JObj []"
    by (simp add: demo_client_def VGSClient_init_def)
  show ?thesis
    using tokenize_records_empty_key_is_bare [where c = demo_client and extra = "[]"
                and P = "answering (Response 200 [CHR ''['', CHR 0x7B, CHR 0x22, CHR ''c'', CHR ''a'', CHR ''r'', CHR ''d'', CHR 0x22, CHR '':'', CHR '' '', CHR 0x22, CHR ''t'', CHR ''o'', CHR ''k'', CHR ''_'', CHR ''1'', CHR 0x22, CHR 0x7D, CHR '']''])"
                and records = "[JObj [(''card'', JInt 4111)]]"
                and w = "demo_world Map.empty Map.empty ()"]
          tokenize_records_empty_key_is_bare [where c = demo_client and extra = "[]"
                and P = "answering (Response 200 [CHR 0x7B, CHR 0x22, CHR ''x'', CHR 0x22, CHR '':'', CHR '' '', CHR ''['', CHR '']'', CHR 0x7D])"
                and records = "[JObj [(''card'', JInt 4111)]]"
                and w = "demo_world Map.empty Map.empty ()"]
          h
    by (simp add: demo_eval)
qed

text \<open>
  C8.  When the remote side answers the request with a 2xx status and a body that
  decodes to a list (bare mode: \<open>batch_key\<close> absent or empty) or to a mapping with a
  list at the key (keyed mode), \<open>tokenize_records\<close> returns exactly that list, of
  whatever length and content, and the only effect is the one exchange.
\<close>

theorem tokenize_records_passthrough:
  assumes "headers c = JObj extra"
    and "remote P (client_request c extra sent) (upstream w) = (Response st body, s')"
    and "is_success st"
    and "json_loads P body = Inr answer"
    and "((batch_key = None \<or> batch_key = Some []) \<and> sent = JArr records \<and> answer = JArr out) \<or>
         (\<exists>k kvs. batch_key = Some k \<and> k \<noteq> [] \<and> sent = JObj [(k, JArr records)] \<and>
                  answer = JObj kvs \<and> map_of kvs k = Some (JArr out))"
  shows "tokenize_records P c records batch_key w =
           (Inr out, w\<lparr>upstream := s',
                      traffic := traffic w @ [(client_request c extra sent, Response st body)]\<rparr>)"
proof -
  have tj: "tokenize_json P c sent w =
      (Inr answer, w\<lparr>upstream := s',
                      traffic := traffic w @ [(client_request c extra sent, Response st body)]\<rparr>)"
    using tokenize_json_answer [OF assms(1) assms(2) assms(3)] assms(4) by simp
  from assms(5) show ?thesis
  proof (elim disjE conjE exE)
    assume "batch_key = None" "sent = JArr records" "answer = JArr out"
    with tj show ?thesis by (simp add: tokenize_records_def)
  next
    assume "batch_key = Some []" "sent = JArr records" "answer = JArr out"
    with tj show ?thesis by (simp add: tokenize_records_def)
  next
    fix k kvs
    assume "batch_key = Some k" "k \<noteq> []" "sent = JObj [(k, JArr records)]"
      "answer = JObj kvs" "map_of kvs k = Some (JArr out)"
    with tj show ?thesis by (simp add: tokenize_records_def)
  qed
qed

text \<open>
  The round trip of the specification: \<open>tokenize_records([], batch_key=None)\<close>
  against a remote side that echoes the empty array returns \<open>[]\<close>.
\<close>

theorem tokenize_records_passthrough_witness:
  "tokenize_records (demo_platform echo_remote) demo_client [] None (demo_world Map.empty Map.empty ())
     = (Inr [],
        \<lparr> environ = Map.empty, files = Map.empty, stdout = [], upstream = (),
          traffic = [(\<lparr> req_url = ''https://vault.example/post'',
                         req_headers = [(''Content-Type'', JStr ''application/json'')],
                         req_json = JArr [],
                         req_timeout = 30 \<rparr>,
                      Response 200 ''[]'')] \<rparr>)"
proof -
  have h1: "headers demo_client = JObj []"
    by (simp add: demo_client_def VGSClient_init_def)
  have h2: "remote (demo_platform echo_remote) (client_request demo_client [] (JArr []))
              (upstream (demo_world Map.empty Map.empty ())) = (Response 200 ''[]'', ())"
    by (simp add: demo_platform_def echo_remote_def client_request_def)
  have h3: "is_success 200" by (simp add: is_success_def)
  have h4: "json_loads (demo_platform echo_remote) ''[]'' = Inr (JArr [])"
    by (simp add: demo_platform_def demo_loads_def)
  have h5: "((None = None \<or> None = Some []) \<and> JArr [] = JArr [] \<and> JArr [] = JArr []) \<or>
         (\<exists>k kvs. None = Some k \<and> k \<noteq> [] \<and> JArr [] = JObj [(k, JArr [])] \<and>
                  JArr [] = JObj kvs \<and> map_of kvs k = Some (JArr []))"
    by simp
  show ?thesis
    using tokenize_records_passthrough [OF h1 h2 h3 h4 h5]
    by (simp add: demo_eval)
qed

text \<open>
  C6 (as amended).  For every response with a 2xx status whose body is not valid
  JSON, \<open>tokenize_json\<close> fails with a \<open>ValueError\<close> whose message is "VGS response
  was not JSON: " followed by the first 200 characters of the body.
\<close>

theorem tokenize_json_not_json:
  assumes "headers c = JObj extra"
    and "remote P (client_request c extra payload) (upstream w) = (Response st body, s')"
    and "is_success st"
    and "json_loads P body = Inl m"
  shows "tokenize_json P c payload w =
           (Inl (Exc ValueError (''VGS response was not JSON: '' @ take 200 body)),
            w\<lparr>upstream := s',
               traffic := traffic w @ [(client_request c extra payload, Response st body)]\<rparr>)"
  using tokenize_json_answer [OF assms(1) assms(2) assms(3)] assms(4) by simp

theorem tokenize_json_not_json_witness:
  "fst (tokenize_json (answering (Response 200 ''<html>Bad Gateway</html>'')) demo_client (JArr [])
          (demo_world Map.empty Map.empty ()))
     = Inl (Exc ValueError ''VGS response was not JSON: <html>Bad Gateway</html>'')"
proof -
  have h1: "headers demo_client = JObj []"
    by (simp add: demo_client_def VGSClient_init_def)
  have h2: "remote (answering (Response 200 ''<html>Bad Gateway</html>''))
              (client_request demo_client [] (JArr []))
              (upstream (demo_world Map.empty Map.empty ()))
            = (Response 200 ''<html>Bad Gateway</html>'', ())"
    by (simp add: demo_platform_def answering_def)
  have h3: "is_success 200" by (simp add: is_success_def)
  have h4: "json_loads (answering (Response 200 ''<html>Bad Gateway</html>'')) ''<html>Bad Gateway</html>''
            = Inl ''Expecting value: line 1 column 1 (char 0)''"
    by (simp add: demo_platform_def answering_def demo_loads_def)
  show ?thesis
    using tokenize_json_not_json [OF h1 h2 h3 h4] by simp
qed

text \<open>
  C6 as stated fails when the status is not 2xx: a 502 response whose body is not
  valid JSON ends in the status error of \<^verbatim>\<open>raise_for_status\<close>; the body is never
  decoded and is not in the message.
\<close>

theorem tokenize_json_bad_status_counterexample:
  "json_loads (answering (Response 502 ''<html>Bad Gateway</html>'')) ''<html>Bad Gateway</html>''
     = Inl ''Expecting value: line 1 column 1 (char 0)''
   \<and> fst (tokenize_json (answering (Response 502 ''<html>Bad Gateway</html>'')) demo_client (JArr [])
          (demo_world Map.empty Map.empty ()))
     = Inl (Exc HTTPStatusError ''status 502 for url https://vault.example/post'')"
  by (simp add: demo_eval str_nat.simps digit_char_def)

section \<open>Construction of the client from the environment\<close>

text \<open>
  C5 (as amended).  \<open>from_env\<close> fails with the \<open>RuntimeError\<close> "VGS_PROXY_URL is not
  set" exactly when \<open>VGS_PROXY_URL\<close> is absent or empty.  When it is present and not
  empty, a \<open>VGS_HEADERS_JSON\<close> that is set, not empty and malformed fails with the
  decoder's \<open>JSONDecodeError\<close>; and when the headers decode (or are absent or empty)
  and the timeout text parses, the result is a client whose base is the URL without
  trailing slashes, whose route path is \<open>/post\<close> by default and starts with \<open>/\<close>,
  whose headers are empty by default, and whose timeout is the parsed number, 30 by
  default.
\<close>

theorem from_env_configuration:
  "((from_env P env = Inl (Exc RuntimeError ''VGS_PROXY_URL is not set''))
      = (env ''VGS_PROXY_URL'' = None \<or> env ''VGS_PROXY_URL'' = Some []))
   \<and> (env ''VGS_PROXY_URL'' = Some proxy \<and> proxy \<noteq> [] \<and>
        env ''VGS_HEADERS_JSON'' = Some hdrs \<and> hdrs \<noteq> [] \<and> json_loads P hdrs = Inl m
      \<longrightarrow> from_env P env = Inl (Exc JSONDecodeError m))
   \<and> (env ''VGS_PROXY_URL'' = Some proxy \<and> proxy \<noteq> [] \<and>
        (case env ''VGS_HEADERS_JSON'' of
           None \<Rightarrow> hs = JNull
         | Some h \<Rightarrow> if h = [] then hs = JNull else json_loads P h = Inr hs) \<and>
        float_parse P (case env ''VGS_TIMEOUT'' of None \<Rightarrow> ''30'' | Some t \<Rightarrow> t) = Inr tmo
      \<longrightarrow> (\<exists>c. from_env P env = Inr c
             \<and> base c = rstrip_slash proxy
             \<and> path c = (case env ''VGS_ROUTE_PATH'' of
                           None \<Rightarrow> ''/post''
                         | Some r \<Rightarrow> if take 1 r = ''/'' then r else ''/'' @ r)
             \<and> take 1 (path c) = ''/''
             \<and> headers c = (if truthy hs then hs else JObj [])
             \<and> (env ''VGS_HEADERS_JSON'' = None \<longrightarrow> headers c = JObj [])
             \<and> timeout c = tmo
             \<and> (env ''VGS_TIMEOUT'' = None \<and> float_parse P ''30'' = Inr 30 \<longrightarrow> timeout c = 30)))"
proof (intro conjI impI)
  show "(from_env P env = Inl (Exc RuntimeError ''VGS_PROXY_URL is not set''))
      = (env ''VGS_PROXY_URL'' = None \<or> env ''VGS_PROXY_URL'' = Some [])"
    by (simp add: from_env_def split: option.split sum.split)
next
  assume "env ''VGS_PROXY_URL'' = Some proxy \<and> proxy \<noteq> [] \<and>
        env ''VGS_HEADERS_JSON'' = Some hdrs \<and> hdrs \<noteq> [] \<and> json_loads P hdrs = Inl m"
  then show "from_env P env = Inl (Exc JSONDecodeError m)"
    by (simp add: from_env_def)
next
  assume a: "env ''VGS_PROXY_URL'' = Some proxy \<and> proxy \<noteq> [] \<and>
        (case env ''VGS_HEADERS_JSON'' of
           None \<Rightarrow> hs = JNull
         | Some h \<Rightarrow> if h = [] then hs = JNull else json_loads P h = Inr hs) \<and>
        float_parse P (case env ''VGS_TIMEOUT'' of None \<Rightarrow> ''30'' | Some t \<Rightarrow> t) = Inr tmo"
  then have "from_env P env =
      Inr (VGSClient_init proxy (case env ''VGS_ROUTE_PATH'' of None \<Rightarrow> ''/post'' | Some r \<Rightarrow> r) hs tmo)"
    by (auto simp add: from_env_def split: option.splits if_splits)
  moreover from a have "env ''VGS_HEADERS_JSON'' = None \<longrightarrow> hs = JNull"
    by (auto split: option.splits)
  moreover from a have "env ''VGS_TIMEOUT'' = None \<and> float_parse P ''30'' = Inr 30 \<longrightarrow> tmo = 30"
    by (auto split: option.splits)
  ultimately show "\<exists>c. from_env P env = Inr c
             \<and> base c = rstrip_slash proxy
             \<and> path c = (case env ''VGS_ROUTE_PATH'' of
                           None \<Rightarrow> ''/post''
                         | Some r \<Rightarrow> if take 1 r = ''/'' then r else ''/'' @ r)
             \<and> take 1 (path c) = ''/''
             \<and> headers c = (if truthy hs then hs else JObj [])
             \<and> (env ''VGS_HEADERS_JSON'' = None \<longrightarrow> headers c = JObj [])
             \<and> timeout c = tmo
             \<and> (env ''VGS_TIMEOUT'' = None \<and> float_parse P ''30'' = Inr 30 \<longrightarrow> timeout c = 30)"
    by (auto simp add: VGSClient_init_def split: option.splits)
qed

text \<open>
  Three environments: only the URL set (every default applies), a malformed headers
  variable, and an empty URL.
\<close>

theorem from_env_configuration_witness:
  "from_env (answering (Response 200 [])) [''VGS_PROXY_URL'' \<mapsto> ''https://vault.example/'']
     = Inr \<lparr> base = ''https://vault.example'', path = ''/post'', headers = JObj [], timeout = 30 \<rparr>
   \<and> from_env (answering (Response 200 []))
        [''VGS_PROXY_URL'' \<mapsto> ''https://vault.example/'', ''VGS_HEADERS_JSON'' \<mapsto> ''{'']
     = Inl (Exc JSONDecodeError ''Expecting value: line 1 column 1 (char 0)'')
   \<and> from_env (answering (Response 200 [])) [''VGS_PROXY_URL'' \<mapsto> []]
     = Inl (Exc RuntimeError ''VGS_PROXY_URL is not set'')"
  using from_env_configuration [where P = "answering (Response 200 [])"
              and env = "[''VGS_PROXY_URL'' \<mapsto> ''https://vault.example/'']"
              and proxy = "''https://vault.example/''" and hs = JNull and tmo = 30]
        from_env_configuration [where P = "answering (Response 200 [])"
              and env = "[''VGS_PROXY_URL'' \<mapsto> ''https://vault.example/'', ''VGS_HEADERS_JSON'' \<mapsto> ''{'']"
              and proxy = "''https://vault.example/''" and hdrs = "''{''"
              and m = "''Expecting value: line 1 column 1 (char 0)''"]
        from_env_configuration [where P = "answering (Response 200 [])" and env = "[''VGS_PROXY_URL'' \<mapsto> []]"]
  by (simp add: from_env_def VGSClient_init_def answering_def demo_platform_def demo_loads_def
        demo_float_def rstrip_slash_def)

text \<open>
  C5 as stated fails: with the URL present and not empty, construction still fails
  when the headers variable is malformed or the timeout text is not a number, and
  these failures are a \<open>JSONDecodeError\<close> and a \<open>ValueError\<close>, not the error raised
  for the missing URL.
\<close>

theorem from_env_other_failures_counterexample:
  "[''VGS_PROXY_URL'' \<mapsto> ''https://vault.example/'', ''VGS_HEADERS_JSON'' \<mapsto> ''{''] ''VGS_PROXY_URL''
     = Some ''https://vault.example/''
   \<and> from_env (answering (Response 200 []))
        [''VGS_PROXY_URL'' \<mapsto> ''https://vault.example/'', ''VGS_HEADERS_JSON'' \<mapsto> ''{'']
     = Inl (Exc JSONDecodeError ''Expecting value: line 1 column 1 (char 0)'')
   \<and> from_env (answering (Response 200 []))
        [''VGS_PROXY_URL'' \<mapsto> ''https://vault.example/'', ''VGS_TIMEOUT'' \<mapsto> ''soon'']
     = Inl (Exc ValueError (''could not convert string to float: '' @ [CHR 0x27] @ ''soon'' @ [CHR 0x27]))"
  by (simp add: from_env_def answering_def demo_platform_def demo_loads_def demo_float_def)

section \<open>The web handler\<close>

text \<open>
  C7.  The health check returns \<open>{"status": "ok"}\<close> in every world and leaves the
  world as it is: it reads no configuration and makes no call.
\<close>

theorem health_fixed:
  "health w = ([(''status'', JStr ''ok'')], w)"
  by (simp add: health_def)

section \<open>The tokenize handler\<close>

text \<open>
  C4 (as amended).  For every tokenize request: when the construction of the client
  fails with \<open>e\<close> the reply is status 500 with the detail "VGS client init failed: "
  followed by the text of \<open>e\<close>; when \<open>tokenize_records\<close> fails with \<open>e\<close> the reply is
  status 502 with the detail "VGS tokenization failed: " followed by the text of
  \<open>e\<close>; and when \<open>tokenize_records\<close> returns a sequence all of whose elements are
  JSON objects, the reply is status 200 with that sequence, in the same order, under
  \<open>records\<close>.
\<close>

theorem tokenize_handler_replies:
  "(from_env P (environ w) = Inl e \<longrightarrow>
      tokenize P req w = (Inl (HTTPException 500 (''VGS client init failed: '' @ str_exc e)), w)
      \<and> reply_of (fst (tokenize P req w))
          = JsonReply 500 (JObj [(''detail'', JStr (''VGS client init failed: '' @ str_exc e))]))
   \<and> (from_env P (environ w) = Inr client \<and>
       tokenize_records P client (map JObj (req_records req)) (req_batch_key req) w = (Inl e, w') \<longrightarrow>
      tokenize P req w = (Inl (HTTPException 502 (''VGS tokenization failed: '' @ str_exc e)), w')
      \<and> reply_of (fst (tokenize P req w))
          = JsonReply 502 (JObj [(''detail'', JStr (''VGS tokenization failed: '' @ str_exc e))]))
   \<and> (from_env P (environ w) = Inr client \<and>
       tokenize_records P client (map JObj (req_records req)) (req_batch_key req) w
         = (Inr (map JObj out), w') \<longrightarrow>
      tokenize P req w = (Inr \<lparr> res_records = out \<rparr>, w')
      \<and> reply_of (fst (tokenize P req w)) = JsonReply 200 (JObj [(''records'', JArr (map JObj out))]))"
  by (simp add: tokenize_def TokenizeResponse_init_def list_all_iff comp_def)

text \<open>One request for each of the three replies.\<close>

theorem tokenize_handler_replies_witness:
  \<open>reply_of (fst (tokenize (answering (Response 200 ''[]''))
                    \<lparr> req_records = [], req_batch_key = None \<rparr>
                    (demo_world Map.empty Map.empty ())))
     = JsonReply 500 (JObj [(''detail'', JStr ''VGS client init failed: VGS_PROXY_URL is not set'')])
   \<and> reply_of (fst (tokenize (answering (Response 502 ''<html>Bad Gateway</html>''))
                    \<lparr> req_records = [[(''card'', JStr ''4111'')]], req_batch_key = None \<rparr>
                    (demo_world vault_env Map.empty ())))
     = JsonReply 502 (JObj [(''detail'',
          JStr ''VGS tokenization failed: status 502 for url https://vault.example/post'')])
   \<and> reply_of (fst (tokenize (answering (Response 200 ''[{"card": "tok_1"}]''))
                    \<lparr> req_records = [[(''card'', JStr ''4111'')]], req_batch_key = None \<rparr>
                    (demo_world vault_env Map.empty ())))
     = JsonReply 200 (JObj [(''records'', JArr [JObj [(''card'', JStr ''tok_1'')]])])\<close>
proof -
  let ?w = "demo_world vault_env Map.empty ()"
  let ?rq = "\<lparr> req_records = [[(''card'', JStr ''4111'')]], req_batch_key = None \<rparr>"
  let ?bad = "answering (Response 502 ''<html>Bad Gateway</html>'')"
  let ?good = \<open>answering (Response 200 ''[{"card": "tok_1"}]'')\<close>
  have a: "from_env (answering (Response 200 ''[]'')) (environ (demo_world Map.empty Map.empty ()))
             = Inl (Exc RuntimeError ''VGS_PROXY_URL is not set'')"
    by (simp add: from_env_def demo_world_def)
  have b1: "from_env ?bad (environ ?w) = Inr demo_client"
    by (simp add: api_eval demo_eval)
  have b2: "tokenize_records ?bad demo_client (map JObj (req_records ?rq)) (req_batch_key ?rq) ?w
              = (Inl (Exc HTTPStatusError ''status 502 for url https://vault.example/post''),
                 snd (tokenize_records ?bad demo_client (map JObj (req_records ?rq)) (req_batch_key ?rq) ?w))"
    by (simp add: api_eval demo_eval)
  have c1: "from_env ?good (environ ?w) = Inr demo_client"
    by (simp add: api_eval demo_eval)
  have c2: "tokenize_records ?good demo_client (map JObj (req_records ?rq)) (req_batch_key ?rq) ?w
              = (Inr (map JObj [[(''card'', JStr ''tok_1'')]]),
                 snd (tokenize_records ?good demo_client (map JObj (req_records ?rq)) (req_batch_key ?rq) ?w))"
    by (simp add: api_eval demo_eval)
  show ?thesis
    using tokenize_handler_replies [where P = "answering (Response 200 ''[]'')" and w = "demo_world Map.empty Map.empty ()"
                and e = "Exc RuntimeError ''VGS_PROXY_URL is not set''"
                and req = "\<lparr> req_records = [], req_batch_key = None \<rparr>"] a
          tokenize_handler_replies [where P = ?bad and w = ?w and req = ?rq and client = demo_client
                and e = "Exc HTTPStatusError ''status 502 for url https://vault.example/post''"
                and w' = "snd (tokenize_records ?bad demo_client (map JObj (req_records ?rq)) (req_batch_key ?rq) ?w)"]
          b1 b2
          tokenize_handler_replies [where P = ?good and w = ?w and req = ?rq and client = demo_client
                and out = "[[(''card'', JStr ''tok_1'')]]"
                and w' = "snd (tokenize_records ?good demo_client (map JObj (req_records ?rq)) (req_batch_key ?rq) ?w)"]
          c1 c2
    by simp
qed

text \<open>
  C4 as stated fails when the client succeeds with a list that holds something other
  than an object: for the upstream answer \<open>[1]\<close> the response model refuses the
  list, and the reply is a plain 500 without a detail, neither a 200 nor a reply
  carrying an error text.
\<close>

theorem tokenize_handler_refused_output_counterexample:
  "from_env (answering (Response 200 ''[1]'')) (environ (demo_world vault_env Map.empty ()))
     = Inr demo_client
   \<and> fst (tokenize_records (answering (Response 200 ''[1]'')) demo_client
            [JObj [(''card'', JStr ''4111'')]] None (demo_world vault_env Map.empty ()))
     = Inr [JInt 1]
   \<and> fst (tokenize (answering (Response 200 ''[1]''))
            \<lparr> req_records = [[(''card'', JStr ''4111'')]], req_batch_key = None \<rparr>
            (demo_world vault_env Map.empty ()))
     = Inl (Exc ValidationError ''validation error for TokenizeResponse'')
   \<and> reply_of (fst (tokenize (answering (Response 200 ''[1]''))
                    \<lparr> req_records = [[(''card'', JStr ''4111'')]], req_batch_key = None \<rparr>
                    (demo_world vault_env Map.empty ())))
     = TextReply 500 ''Internal Server Error''"
  by (simp add: api_eval demo_eval)

section \<open>The batch driver\<close>

lemmas driver_eval =
  main_def loop_body_def post_tokenize_def http_post_def api_request_def token_api_def flaky_api_def
  demo_platform_def demo_loads_def is_success_def range_up.simps card_rows_def demo_world_def
  demo_args_def str_nat.simps digit_char_def count_mismatch_def

lemma post_tokenize_keeps:
  "files (snd (post_tokenize P recs api bk tmo w)) = files w \<and>
   stdout (snd (post_tokenize P recs api bk tmo w)) = stdout w \<and>
   environ (snd (post_tokenize P recs api bk tmo w)) = environ w"
  by (simp add: post_tokenize_def http_post_def
      split: prod.split http_outcome.split sum.split json.split)

lemma loop_body_keeps:
  "files (snd (loop_body P api recs out_rows w)) = files w \<and>
   stdout (snd (loop_body P api recs out_rows w)) = stdout w"
proof (cases "post_tokenize P recs api None 30 w")
  case (Pair r w1)
  with post_tokenize_keeps [of P recs api None 30 w]
  show ?thesis
    by (simp add: loop_body_def split: sum.split)
qed

lemma for_batches_keeps:
  "files (snd (for_batches P api bsize df idx out_rows w)) = files w \<and>
   stdout (snd (for_batches P api bsize df idx out_rows w)) = stdout w"
proof (induction idx arbitrary: out_rows w)
  case Nil
  show ?case by simp
next
  case (Cons i rest)
  show ?case
  proof (cases "loop_body P api (take bsize (drop i df)) out_rows w")
    case (Pair r w1)
    with loop_body_keeps [of P api "take bsize (drop i df)" out_rows w]
    have k: "files w1 = files w \<and> stdout w1 = stdout w" by simp
    show ?thesis
    proof (cases r)
      case (Inl e)
      with Pair k show ?thesis by simp
    next
      case (Inr o1)
      with Pair k Cons.IH [of o1 w1] show ?thesis by simp
    qed
  qed
qed

lemma for_batches_append:
  "for_batches P api bsize df (pre @ post) out_rows w =
     (case for_batches P api bsize df pre out_rows w of
        (Inl e, w') \<Rightarrow> (Inl e, w')
      | (Inr out', w') \<Rightarrow> for_batches P api bsize df post out' w')"
  by (induction pre arbitrary: out_rows w) (auto split: prod.splits sum.splits)

lemma range_up_chunks:
  "0 < step \<Longrightarrow> n = length df \<Longrightarrow>
     concat (map (\<lambda>i. take step (drop i df)) (range_up i n step)) = drop i df"
proof (induction i n step rule: range_up.induct)
  case (1 i n step)
  show ?case
  proof (cases "n \<le> i")
    case True
    with "1.prems" show ?thesis by (simp add: range_up.simps)
  next
    case False
    with "1.prems" "1.IH"
    have "concat (map (\<lambda>i. take step (drop i df)) (range_up (i + step) n step)) = drop (i + step) df"
      by simp
    moreover have "take step (drop i df) @ drop (i + step) df = drop i df"
      by (metis add.commute append_take_drop_id drop_drop)
    moreover from False "1.prems"(1) have "range_up i n step = i # range_up (i + step) n step"
      by (subst range_up.simps) simp
    ultimately show ?thesis by simp
  qed
qed

lemma range_up_below:
  "j \<in> set (range_up i n step) \<Longrightarrow> j < n"
proof (induction i n step rule: range_up.induct)
  case (1 i n step)
  then show ?case
    by (cases "step = 0 \<or> n \<le> i") (auto simp add: range_up.simps [of i n step])
qed

lemma batches_concat: "0 < bsize \<Longrightarrow> concat (batches bsize df) = df"
  using range_up_chunks [of bsize "length df" df 0] by (simp add: batches_def)

lemma batches_sizes:
  assumes "0 < bsize" and "b \<in> set (batches bsize df)"
  shows "0 < length b \<and> length b \<le> bsize"
proof -
  from assms(2) obtain i where i: "i \<in> set (range_up 0 (length df) bsize)"
    and b: "b = take bsize (drop i df)"
    by (auto simp add: batches_def)
  from range_up_below [OF i] have "i < length df" .
  with assms(1) b show ?thesis by simp
qed

lemma loop_body_world:
  "snd (loop_body P api recs out_rows w) = snd (post_tokenize P recs api None 30 w)"
  by (simp add: loop_body_def split: prod.split sum.split)

lemma post_tokenize_world:
  "snd (post_tokenize P recs api bk tmo w)
     = w\<lparr>upstream := snd (remote P (api_request api recs bk tmo) (upstream w)),
          traffic := traffic w @ [(api_request api recs bk tmo,
                                   fst (remote P (api_request api recs bk tmo) (upstream w)))]\<rparr>"
  by (auto simp add: post_tokenize_def http_post_def
      split: prod.split http_outcome.split sum.split json.split)

lemma loop_body_after:
  "snd (loop_body P api recs out_rows w)
     = w\<lparr>upstream := snd (remote P (api_request api recs None 30) (upstream w)),
          traffic := traffic w @ [(api_request api recs None 30,
                                   fst (remote P (api_request api recs None 30) (upstream w)))]\<rparr>"
  by (simp add: loop_body_world post_tokenize_world)

lemma post_tokenize_result:
  "remote P (api_request api recs bk tmo) (upstream w) = (Response st body, s') \<Longrightarrow>
   is_success st \<Longrightarrow> json_loads P body = Inr (JObj kvs) \<Longrightarrow>
   fst (post_tokenize P recs api bk tmo w)
     = Inr (case map_of kvs ''records'' of None \<Rightarrow> JArr [] | Some v \<Rightarrow> v)"
  by (simp add: post_tokenize_def http_post_def)

lemma loop_body_accepted:
  assumes "reply_accepted P recs (fst (remote P (api_request api recs None 30) (upstream w)))"
  shows "fst (loop_body P api recs out_rows w)
           = Inr (out_rows @ response_rows P (fst (remote P (api_request api recs None 30) (upstream w))))"
proof -
  obtain res s' where r: "remote P (api_request api recs None 30) (upstream w) = (res, s')"
    by (cases "remote P (api_request api recs None 30) (upstream w)")
  with assms obtain st body kvs where res: "res = Response st body" and ok: "is_success st"
    and js: "json_loads P body = Inr (JObj kvs)"
    and ln: "py_len (case map_of kvs ''records'' of None \<Rightarrow> JArr [] | Some v \<Rightarrow> v) = Inr (length recs)"
    by (auto simp add: reply_accepted_def split: http_outcome.splits sum.splits json.splits)
  from r res have r': "remote P (api_request api recs None 30) (upstream w) = (Response st body, s')"
    by simp
  from post_tokenize_result [OF r' ok js]
  obtain w1 where "post_tokenize P recs api None 30 w
          = (Inr (case map_of kvs ''records'' of None \<Rightarrow> JArr [] | Some v \<Rightarrow> v), w1)"
    by (cases "post_tokenize P recs api None 30 w") simp
  with ln r' js show ?thesis
    by (simp add: loop_body_def response_rows_def)
qed

lemma loop_body_refused:
  assumes "\<not> reply_accepted P recs (fst (remote P (api_request api recs None 30) (upstream w)))"
  shows "\<exists>e. fst (loop_body P api recs out_rows w) = Inl e"
  using assms
  by (auto simp add: loop_body_def post_tokenize_def http_post_def reply_accepted_def
      split: prod.splits http_outcome.splits sum.splits json.splits)

lemma for_batches_after:
  "snd (for_batches P api bsize df idx out_rows w)
     = w\<lparr>upstream := snd (run_calls P api (map (\<lambda>i. take bsize (drop i df)) idx) (upstream w)),
          traffic := traffic w @ fst (run_calls P api (map (\<lambda>i. take bsize (drop i df)) idx) (upstream w))\<rparr>"
proof (induction idx arbitrary: out_rows w)
  case Nil
  show ?case by simp
next
  case (Cons i rest)
  let ?b = "take bsize (drop i df)"
  let ?rq = "api_request api ?b None 30"
  obtain res s' where r: "remote P ?rq (upstream w) = (res, s')"
    by (cases "remote P ?rq (upstream w)")
  obtain x w1 where lb: "loop_body P api ?b out_rows w = (x, w1)"
    by (cases "loop_body P api ?b out_rows w")
  with loop_body_after [of P api ?b out_rows w] r
  have w1: "w1 = w\<lparr>upstream := s', traffic := traffic w @ [(?rq, res)]\<rparr>" by simp
  show ?case
  proof (cases "reply_accepted P ?b res")
    case True
    with loop_body_accepted [of P ?b api w out_rows] r lb
    obtain o1 where x: "x = Inr o1" by simp
    obtain ex s'' where rc: "run_calls P api (map (\<lambda>i. take bsize (drop i df)) rest) s' = (ex, s'')"
      by (cases "run_calls P api (map (\<lambda>i. take bsize (drop i df)) rest) s'")
    from Cons.IH [of o1 w1] w1 rc
    have "snd (for_batches P api bsize df rest o1 w1)
            = w\<lparr>upstream := s'', traffic := traffic w @ (?rq, res) # ex\<rparr>"
      by simp
    with lb x r rc True show ?thesis by simp
  next
    case False
    with loop_body_refused [of P ?b api w out_rows] r lb
    obtain e where x: "x = Inl e" by auto
    with lb w1 r False show ?thesis by simp
  qed
qed

lemma for_batches_all_accepted:
  assumes "list_all2 (\<lambda>b x. reply_accepted P b (snd x))
             (map (\<lambda>i. take bsize (drop i df)) idx)
             (fst (run_calls P api (map (\<lambda>i. take bsize (drop i df)) idx) (upstream w)))"
  shows "fst (for_batches P api bsize df idx out_rows w)
           = Inr (out_rows @ concat (map (\<lambda>x. response_rows P (snd x))
                    (fst (run_calls P api (map (\<lambda>i. take bsize (drop i df)) idx) (upstream w)))))"
  using assms
proof (induction idx arbitrary: out_rows w)
  case Nil
  show ?case by simp
next
  case (Cons i rest)
  let ?b = "take bsize (drop i df)"
  let ?rq = "api_request api ?b None 30"
  obtain res s' where r: "remote P ?rq (upstream w) = (res, s')"
    by (cases "remote P ?rq (upstream w)")
  obtain ex s'' where rc: "run_calls P api (map (\<lambda>i. take bsize (drop i df)) rest) s' = (ex, s'')"
    by (cases "run_calls P api (map (\<lambda>i. take bsize (drop i df)) rest) s'")
  from Cons.prems r have acc: "reply_accepted P ?b res"
    by (auto split: if_splits prod.splits)
  with Cons.prems r rc have rest_ok: "list_all2 (\<lambda>b x. reply_accepted P b (snd x))
             (map (\<lambda>i. take bsize (drop i df)) rest) ex"
    by simp
  obtain x w1 where lb: "loop_body P api ?b out_rows w = (x, w1)"
    by (cases "loop_body P api ?b out_rows w")
  with loop_body_after [of P api ?b out_rows w] r
  have w1: "upstream w1 = s'" by simp
  from loop_body_accepted [of P ?b api w out_rows] r acc lb
  have x: "x = Inr (out_rows @ response_rows P res)" by simp
  from rest_ok rc w1 have "list_all2 (\<lambda>b x. reply_accepted P b (snd x))
             (map (\<lambda>i. take bsize (drop i df)) rest)
             (fst (run_calls P api (map (\<lambda>i. take bsize (drop i df)) rest) (upstream w1)))"
    by simp
  from Cons.IH [OF this, of "out_rows @ response_rows P res"] rc w1
  have "fst (for_batches P api bsize df rest (out_rows @ response_rows P res) w1)
          = Inr (out_rows @ response_rows P res @ concat (map (\<lambda>x. response_rows P (snd x)) ex))"
    by simp
  with lb x r rc acc show ?case by simp
qed

lemma for_batches_some_refused:
  assumes "\<not> list_all2 (\<lambda>b x. reply_accepted P b (snd x))
             (map (\<lambda>i. take bsize (drop i df)) idx)
             (fst (run_calls P api (map (\<lambda>i. take bsize (drop i df)) idx) (upstream w)))"
  shows "\<exists>e. fst (for_batches P api bsize df idx out_rows w) = Inl e"
  using assms
proof (induction idx arbitrary: out_rows w)
  case Nil
  then show ?case by simp
next
  case (Cons i rest)
  let ?b = "take bsize (drop i df)"
  let ?rq = "api_request api ?b None 30"
  obtain res s' where r: "remote P ?rq (upstream w) = (res, s')"
    by (cases "remote P ?rq (upstream w)")
  obtain x w1 where lb: "loop_body P api ?b out_rows w = (x, w1)"
    by (cases "loop_body P api ?b out_rows w")
  with loop_body_after [of P api ?b out_rows w] r
  have w1: "upstream w1 = s'" by simp
  show ?case
  proof (cases "reply_accepted P ?b res")
    case False
    with loop_body_refused [of P ?b api w out_rows] r lb
    obtain e where "x = Inl e" by auto
    with lb show ?thesis by simp
  next
    case True
    with loop_body_accepted [of P ?b api w out_rows] r lb
    have x: "x = Inr (out_rows @ response_rows P res)" by simp
    obtain ex s'' where rc: "run_calls P api (map (\<lambda>i. take bsize (drop i df)) rest) s' = (ex, s'')"
      by (cases "run_calls P api (map (\<lambda>i. take bsize (drop i df)) rest) s'")
    from Cons.prems r rc True have "\<not> list_all2 (\<lambda>b x. reply_accepted P b (snd x))
             (map (\<lambda>i. take bsize (drop i df)) rest) ex"
      by simp
    with rc w1 have "\<not> list_all2 (\<lambda>b x. reply_accepted P b (snd x))
             (map (\<lambda>i. take bsize (drop i df)) rest)
             (fst (run_calls P api (map (\<lambda>i. take bsize (drop i df)) rest) (upstream w1)))"
      by simp
    from Cons.IH [OF this, of "out_rows @ response_rows P res"] lb x
    show ?thesis by simp
  qed
qed

lemma run_calls_requests:
  "map fst (fst (run_calls P api bs s))
     = map (\<lambda>b. api_request api b None 30) (take (length (fst (run_calls P api bs s))) bs)"
proof (induction bs arbitrary: s)
  case Nil
  show ?case by simp
next
  case (Cons b rest)
  obtain res s' where r: "remote P (api_request api b None 30) s = (res, s')"
    by (cases "remote P (api_request api b None 30) s")
  obtain ex s'' where rc: "run_calls P api rest s' = (ex, s'')"
    by (cases "run_calls P api rest s'")
  from Cons.IH [of s'] rc
  have "map fst ex = map (\<lambda>b. api_request api b None 30) (take (length ex) rest)" by simp
  with r rc show ?case by simp
qed

text \<open>
  C3 (as amended).  For every input table and every positive batch size, the batches
  of a run are the contiguous slices of the rows in order: their concatenation is
  the table, and each holds at least one and at most \<open>batch_size\<close> rows.  The
  calls a run makes are exactly \<open>run_calls\<close>: one call per batch in batch order,
  each with that batch under \<open>records\<close> and each answered by the remote side from
  the state the call before left, up to and including the first call whose reply is
  not accepted.  When every reply is accepted the run ends without an error, has
  made exactly one call per batch, and writes as output the concatenation, in batch
  order, of the rows of the replies; otherwise it ends in an error and leaves the
  files as they were.
\<close>

theorem batch_driver_partition:
  assumes "0 < batch_size a"
    and "files w (arg_input a) = Some df"
  shows "concat (batches (nat (batch_size a)) df) = df
       \<and> (\<forall>b \<in> set (batches (nat (batch_size a)) df). 0 < length b \<and> length b \<le> nat (batch_size a))
       \<and> traffic (snd (main P a w))
           = traffic w @ fst (run_calls P (api_url a) (batches (nat (batch_size a)) df) (upstream w))
       \<and> upstream (snd (main P a w))
           = snd (run_calls P (api_url a) (batches (nat (batch_size a)) df) (upstream w))
       \<and> map fst (fst (run_calls P (api_url a) (batches (nat (batch_size a)) df) (upstream w)))
           = map (\<lambda>b. api_request (api_url a) b None 30)
               (take (length (fst (run_calls P (api_url a) (batches (nat (batch_size a)) df) (upstream w))))
                  (batches (nat (batch_size a)) df))
       \<and> (list_all2 (\<lambda>b x. reply_accepted P b (snd x)) (batches (nat (batch_size a)) df)
             (fst (run_calls P (api_url a) (batches (nat (batch_size a)) df) (upstream w)))
          \<longrightarrow> fst (main P a w) = Inr 0
            \<and> files (snd (main P a w))
                = (files w)(arg_output a \<mapsto>
                     concat (map (\<lambda>x. response_rows P (snd x))
                       (fst (run_calls P (api_url a) (batches (nat (batch_size a)) df) (upstream w))))))
       \<and> (\<not> list_all2 (\<lambda>b x. reply_accepted P b (snd x)) (batches (nat (batch_size a)) df)
             (fst (run_calls P (api_url a) (batches (nat (batch_size a)) df) (upstream w)))
          \<longrightarrow> (\<exists>e. fst (main P a w) = Inl e) \<and> files (snd (main P a w)) = files w)"
proof -
  let ?bs = "nat (batch_size a)"
  let ?idx = "range_up 0 (length df) ?bs"
  let ?B = "batches ?bs df"
  let ?run = "for_batches P (api_url a) ?bs df ?idx [] w"
  let ?C = "fst (run_calls P (api_url a) ?B (upstream w))"
  let ?ok = "list_all2 (\<lambda>b x. reply_accepted P b (snd x)) ?B ?C"
  from assms(1) have pos: "0 < ?bs" by simp
  have B: "?B = map (\<lambda>i. take ?bs (drop i df)) ?idx" by (simp add: batches_def)
  have after: "snd ?run = w\<lparr>upstream := snd (run_calls P (api_url a) ?B (upstream w)),
                             traffic := traffic w @ ?C\<rparr>"
    using for_batches_after [of P "api_url a" ?bs df ?idx "[]" w] by (simp add: B)
  obtain x w1 where run: "?run = (x, w1)" by (cases ?run)
  with after have w1: "w1 = w\<lparr>upstream := snd (run_calls P (api_url a) ?B (upstream w)),
                             traffic := traffic w @ ?C\<rparr>" by simp
  have m: "main P a w =
      (case x of
         Inl e \<Rightarrow> (Inl e, w1)
       | Inr out_rows \<Rightarrow>
           (Inr 0, w1\<lparr> files := (files w1)(arg_output a \<mapsto> out_rows),
                       stdout := stdout w1 @
                         [''Tokenized '' @ str_nat (length out_rows) @ '' rows -> '' @ arg_output a] \<rparr>))"
    using assms run by (simp add: main_def split: sum.split)
  have t: "traffic (snd (main P a w)) = traffic w @ ?C"
    using m w1 by (simp split: sum.split)
  have u: "upstream (snd (main P a w)) = snd (run_calls P (api_url a) ?B (upstream w))"
    using m w1 by (simp split: sum.split)
  have good: "?ok \<longrightarrow> fst (main P a w) = Inr 0
            \<and> files (snd (main P a w))
                = (files w)(arg_output a \<mapsto> concat (map (\<lambda>x. response_rows P (snd x)) ?C))"
  proof
    assume ok: ?ok
    from for_batches_all_accepted [of P ?bs df ?idx "api_url a" w "[]"] ok run
    have "x = Inr (concat (map (\<lambda>x. response_rows P (snd x)) ?C))"
      by (simp add: B)
    with m w1 show "fst (main P a w) = Inr 0
            \<and> files (snd (main P a w))
                = (files w)(arg_output a \<mapsto> concat (map (\<lambda>x. response_rows P (snd x)) ?C))"
      by simp
  qed
  have bad: "\<not> ?ok \<longrightarrow> (\<exists>e. fst (main P a w) = Inl e) \<and> files (snd (main P a w)) = files w"
  proof
    assume nok: "\<not> ?ok"
    from for_batches_some_refused [of P ?bs df ?idx "api_url a" w "[]"] nok run
    obtain e where "x = Inl e" by (auto simp add: B)
    with m w1 show "(\<exists>e. fst (main P a w) = Inl e) \<and> files (snd (main P a w)) = files w"
      by simp
  qed
  from batches_concat [OF pos, of df] batches_sizes [OF pos, of _ df] t u
    run_calls_requests [of P "api_url a" ?B "upstream w"] good bad
  show ?thesis by blast
qed



text \<open>
  The example of the specification: five rows and a batch size of two give exactly
  three calls, of two, two and one rows, and the output is the three replies in
  that order.
\<close>

theorem batch_driver_partition_witness:
  \<open>batches 2 card_rows =
     [[JObj [(''card'', JInt 4111)], JObj [(''card'', JInt 4222)]],
      [JObj [(''card'', JInt 4333)], JObj [(''card'', JInt 4444)]],
      [JObj [(''card'', JInt 4555)]]]
   \<and> fst (main (demo_platform token_api) demo_args
             (demo_world Map.empty [''in.csv'' \<mapsto> card_rows] 0)) = Inr 0
   \<and> upstream (snd (main (demo_platform token_api) demo_args
                        (demo_world Map.empty [''in.csv'' \<mapsto> card_rows] 0))) = 3
   \<and> map (\<lambda>x. req_json (fst x))
        (traffic (snd (main (demo_platform token_api) demo_args
                         (demo_world Map.empty [''in.csv'' \<mapsto> card_rows] 0))))
      = [JObj [(''records'', JArr [JObj [(''card'', JInt 4111)], JObj [(''card'', JInt 4222)]])],
         JObj [(''records'', JArr [JObj [(''card'', JInt 4333)], JObj [(''card'', JInt 4444)]])],
         JObj [(''records'', JArr [JObj [(''card'', JInt 4555)]])]]
   \<and> map (\<lambda>x. response_rows (demo_platform token_api) (snd x))
        (traffic (snd (main (demo_platform token_api) demo_args
                         (demo_world Map.empty [''in.csv'' \<mapsto> card_rows] 0))))
      = [[JObj [(''card'', JStr ''tok'')], JObj [(''card'', JStr ''tok'')]],
         [JObj [(''card'', JStr ''tok'')], JObj [(''card'', JStr ''tok'')]],
         [JObj [(''card'', JStr ''tok'')]]]
   \<and> files (snd (main (demo_platform token_api) demo_args
                    (demo_world Map.empty [''in.csv'' \<mapsto> card_rows] 0))) ''out.csv''
      = Some [JObj [(''card'', JStr ''tok'')], JObj [(''card'', JStr ''tok'')],
              JObj [(''card'', JStr ''tok'')], JObj [(''card'', JStr ''tok'')],
              JObj [(''card'', JStr ''tok'')]]\<close>
proof -
  let ?P = "demo_platform token_api"
  let ?w = "demo_world Map.empty [''in.csv'' \<mapsto> card_rows] (0::nat)"
  let ?B = "batches (nat (batch_size demo_args)) card_rows"
  let ?rq = "\<lambda>b. api_request ''http://127.0.0.1:8080/tokenize'' b None 30"
  let ?b1 = "[JObj [(''card'', JInt 4111)], JObj [(''card'', JInt 4222)]]"
  let ?b2 = "[JObj [(''card'', JInt 4333)], JObj [(''card'', JInt 4444)]]"
  let ?b3 = "[JObj [(''card'', JInt 4555)]]"
  let ?two = "Response 200 [CHR 0x7B, CHR 0x22, CHR ''r'', CHR ''e'', CHR ''c'', CHR ''o'', CHR ''r'',
      CHR ''d'', CHR ''s'', CHR 0x22, CHR '':'', CHR '' '', CHR ''['', CHR 0x7B, CHR 0x22, CHR ''c'',
      CHR ''a'', CHR ''r'', CHR ''d'', CHR 0x22, CHR '':'', CHR '' '', CHR 0x22, CHR ''t'', CHR ''o'',
      CHR ''k'', CHR 0x22, CHR 0x7D, CHR '','', CHR '' '', CHR 0x7B, CHR 0x22, CHR ''c'', CHR ''a'',
      CHR ''r'', CHR ''d'', CHR 0x22, CHR '':'', CHR '' '', CHR 0x22, CHR ''t'', CHR ''o'', CHR ''k'',
      CHR 0x22, CHR 0x7D, CHR '']'', CHR 0x7D]"
  let ?one = "Response 200 [CHR 0x7B, CHR 0x22, CHR ''r'', CHR ''e'', CHR ''c'', CHR ''o'', CHR ''r'',
      CHR ''d'', CHR ''s'', CHR 0x22, CHR '':'', CHR '' '', CHR ''['', CHR 0x7B, CHR 0x22, CHR ''c'',
      CHR ''a'', CHR ''r'', CHR ''d'', CHR 0x22, CHR '':'', CHR '' '', CHR 0x22, CHR ''t'', CHR ''o'',
      CHR ''k'', CHR 0x22, CHR 0x7D, CHR '']'', CHR 0x7D]"
  have h1: "0 < batch_size demo_args" by (simp add: demo_args_def)
  have h2: "files ?w (arg_input demo_args) = Some card_rows"
    by (simp add: demo_args_def demo_world_def)
  note run = batch_driver_partition [OF h1 h2, of ?P]
  have B: "?B = [?b1, ?b2, ?b3]"
    by (simp add: batches_def driver_eval)
  have C: "run_calls ?P (api_url demo_args) ?B (upstream ?w)
             = ([(?rq ?b1, ?two), (?rq ?b2, ?two), (?rq ?b3, ?one)], 3)"
    unfolding B
    by (simp add: reply_accepted_def demo_platform_def token_api_def api_request_def demo_loads_def
        is_success_def demo_args_def demo_world_def)
  have ok: "list_all2 (\<lambda>b x. reply_accepted ?P b (snd x)) ?B
              (fst (run_calls ?P (api_url demo_args) ?B (upstream ?w)))"
    unfolding C unfolding B
    by (simp add: reply_accepted_def demo_platform_def demo_loads_def is_success_def)
  from run have t: "traffic (snd (main ?P demo_args ?w))
      = traffic ?w @ fst (run_calls ?P (api_url demo_args) ?B (upstream ?w))"
    by (elim conjE)
  from run have u: "upstream (snd (main ?P demo_args ?w))
      = snd (run_calls ?P (api_url demo_args) ?B (upstream ?w))"
    by (elim conjE)
  note accepted_case =
    run [THEN conjunct2, THEN conjunct2, THEN conjunct2, THEN conjunct2, THEN conjunct2, THEN conjunct1]
  from accepted_case ok have f: "fst (main ?P demo_args ?w) = Inr 0
      \<and> files (snd (main ?P demo_args ?w))
          = (files ?w)(arg_output demo_args \<mapsto>
               concat (map (\<lambda>x. response_rows ?P (snd x))
                 (fst (run_calls ?P (api_url demo_args) ?B (upstream ?w)))))"
    by (rule mp)
  have t': "traffic (snd (main ?P demo_args ?w)) = [(?rq ?b1, ?two), (?rq ?b2, ?two), (?rq ?b3, ?one)]"
    using t unfolding C by (simp add: demo_world_def)
  have u': "upstream (snd (main ?P demo_args ?w)) = 3"
    using u unfolding C by simp
  have f': "fst (main ?P demo_args ?w) = Inr 0
      \<and> files (snd (main ?P demo_args ?w)) ''out.csv''
          = Some [JObj [(''card'', JStr ''tok'')], JObj [(''card'', JStr ''tok'')],
              JObj [(''card'', JStr ''tok'')], JObj [(''card'', JStr ''tok'')],
              JObj [(''card'', JStr ''tok'')]]"
    using f unfolding C
    by (simp add: response_rows_def demo_platform_def demo_loads_def demo_args_def demo_world_def)
  have B2: "batches 2 card_rows = [?b1, ?b2, ?b3]"
    using B by (simp add: demo_args_def)
  show ?thesis
    unfolding t' u' B2 using f'
    by (simp add: api_request_def response_rows_def demo_platform_def demo_loads_def)
qed


text \<open>
  C3 as stated fails on a run in which a call is not accepted: with five rows, a
  batch size of two and an API whose second reply holds one record, there are three
  batches but only two calls are made, and there is no output.
\<close>

theorem batch_driver_failed_run_counterexample:
  \<open>length (batches 2 card_rows) = 3
   \<and> map (\<lambda>x. req_json (fst x))
        (traffic (snd (main (demo_platform flaky_api) demo_args
                         (demo_world Map.empty [''in.csv'' \<mapsto> card_rows] 0))))
      = [JObj [(''records'', JArr [JObj [(''card'', JInt 4111)], JObj [(''card'', JInt 4222)]])],
         JObj [(''records'', JArr [JObj [(''card'', JInt 4333)], JObj [(''card'', JInt 4444)]])]]
   \<and> fst (main (demo_platform flaky_api) demo_args
             (demo_world Map.empty [''in.csv'' \<mapsto> card_rows] 0))
      = Inl (Exc RuntimeError ''Tokenization API returned 1 records, expected 2'')
   \<and> files (snd (main (demo_platform flaky_api) demo_args
                    (demo_world Map.empty [''in.csv'' \<mapsto> card_rows] 0))) ''out.csv'' = None\<close>
  by (simp add: driver_eval batches_def)

text \<open>
  C2.  For every input table: when the run has accepted the batches before batch
  \<open>i\<close> and the call for batch \<open>i\<close> returns a list whose length differs from the
  number of rows of the batch, \<open>main\<close> fails with the \<open>RuntimeError\<close> "Tokenization
  API returned ... records, expected ...", no later call is made, and no file is
  written and nothing is printed: the files are those of the start.
\<close>

theorem batch_driver_count_mismatch:
  assumes "files w (arg_input a) = Some df"
    and "0 < batch_size a"
    and "range_up 0 (length df) (nat (batch_size a)) = pre @ i # post"
    and "for_batches P (api_url a) (nat (batch_size a)) df pre [] w = (Inr accepted, w1)"
    and "post_tokenize P (take (nat (batch_size a)) (drop i df)) (api_url a) None 30 w1
           = (Inr (JArr toks), w2)"
    and "length toks \<noteq> length (take (nat (batch_size a)) (drop i df))"
  shows "main P a w =
           (Inl (Exc RuntimeError
                  (''Tokenization API returned '' @ str_nat (length toks) @ '' records, expected ''
                     @ str_nat (length (take (nat (batch_size a)) (drop i df))))), w2)
       \<and> files w2 = files w \<and> stdout w2 = stdout w"
proof -
  let ?bs = "nat (batch_size a)"
  let ?recs = "take ?bs (drop i df)"
  let ?err = "Exc RuntimeError
                  (''Tokenization API returned '' @ str_nat (length toks) @ '' records, expected ''
                     @ str_nat (length ?recs))"
  from assms(5) assms(6)
  have lb: "loop_body P (api_url a) ?recs accepted w1 = (Inl ?err, w2)"
    by (simp add: loop_body_def count_mismatch_def)
  then have "for_batches P (api_url a) ?bs df (i # post) accepted w1 = (Inl ?err, w2)"
    by simp
  with assms(4)
  have fb: "for_batches P (api_url a) ?bs df (pre @ i # post) [] w = (Inl ?err, w2)"
    by (simp add: for_batches_append)
  with assms(1) assms(2) assms(3) have m: "main P a w = (Inl ?err, w2)"
    by (simp add: main_def)
  from for_batches_keeps [of P "api_url a" ?bs df "pre @ i # post" "[]" w] fb
  have "files w2 = files w \<and> stdout w2 = stdout w" by simp
  with m show ?thesis by simp
qed

text \<open>
  Five rows in batches of two against an API that answers the first call in kind and
  the second with one record: the run stops at the second batch with the count
  error, after two calls, and writes and prints nothing.
\<close>

theorem batch_driver_count_mismatch_witness:
  \<open>main (demo_platform flaky_api) demo_args (demo_world Map.empty [''in.csv'' \<mapsto> card_rows] 0)
     = (Inl (Exc RuntimeError ''Tokenization API returned 1 records, expected 2''),
        snd (main (demo_platform flaky_api) demo_args
               (demo_world Map.empty [''in.csv'' \<mapsto> card_rows] 0)))
   \<and> files (snd (main (demo_platform flaky_api) demo_args
                    (demo_world Map.empty [''in.csv'' \<mapsto> card_rows] 0))) ''out.csv'' = None
   \<and> stdout (snd (main (demo_platform flaky_api) demo_args
                    (demo_world Map.empty [''in.csv'' \<mapsto> card_rows] 0))) = []
   \<and> length (traffic (snd (main (demo_platform flaky_api) demo_args
                    (demo_world Map.empty [''in.csv'' \<mapsto> card_rows] 0)))) = 2\<close>
proof -
  let ?P = "demo_platform flaky_api"
  let ?w = "demo_world Map.empty [''in.csv'' \<mapsto> card_rows] (0::nat)"
  let ?api = "api_url demo_args"
  let ?bs = "nat (batch_size demo_args)"
  let ?w1 = "snd (for_batches ?P ?api ?bs card_rows [0] [] ?w)"
  let ?w2 = "snd (post_tokenize ?P (take ?bs (drop 2 card_rows)) ?api None 30 ?w1)"
  have h1: "files ?w (arg_input demo_args) = Some card_rows"
    by (simp add: demo_args_def demo_world_def)
  have h2: "0 < batch_size demo_args" by (simp add: demo_args_def)
  have h3: "range_up 0 (length card_rows) ?bs = [0] @ 2 # [4]"
    by (simp add: driver_eval)
  have h4: "for_batches ?P ?api ?bs card_rows [0] [] ?w
              = (Inr [JObj [(''card'', JStr ''tok'')], JObj [(''card'', JStr ''tok'')]], ?w1)"
    by (simp add: driver_eval)
  have h5: "post_tokenize ?P (take ?bs (drop 2 card_rows)) ?api None 30 ?w1
              = (Inr (JArr [JObj [(''card'', JStr ''tok'')]]), ?w2)"
    by (simp add: driver_eval)
  have h6: "length [JObj [(''card'', JStr ''tok'')]] \<noteq> length (take ?bs (drop 2 card_rows))"
    by (simp add: driver_eval)
  show ?thesis
    using batch_driver_count_mismatch [OF h1 h2 h3 h4 h5 h6]
    by (simp add: driver_eval)
qed

text \<open>
  C10 (as amended).  For every API response with a 2xx status whose body decodes to a
  JSON object without a \<open>records\<close> key, \<open>post_tokenize\<close> returns the empty list
  and raises nothing; in the loop of \<open>main\<close> such a response is the count error
  "Tokenization API returned 0 records, expected n" for a batch of \<open>n > 0\<close> rows, and
  is accepted, adding no row, for an empty batch.
\<close>

theorem post_tokenize_missing_records:
  assumes "remote P (api_request api recs batch_key tmo) (upstream w) = (Response st body, s')"
    and "is_success st"
    and "json_loads P body = Inr (JObj kvs)"
    and "map_of kvs ''records'' = None"
  shows "post_tokenize P recs api batch_key tmo w =
           (Inr (JArr []),
            w\<lparr>upstream := s',
               traffic := traffic w @ [(api_request api recs batch_key tmo, Response st body)]\<rparr>)
       \<and> (batch_key = None \<and> tmo = 30 \<longrightarrow>
            loop_body P api recs out_rows w =
              (if recs = [] then Inr out_rows else Inl (count_mismatch 0 (length recs)),
               w\<lparr>upstream := s',
                  traffic := traffic w @ [(api_request api recs None 30, Response st body)]\<rparr>))"
proof -
  from assms
  have pt: "post_tokenize P recs api batch_key tmo w =
           (Inr (JArr []),
            w\<lparr>upstream := s',
               traffic := traffic w @ [(api_request api recs batch_key tmo, Response st body)]\<rparr>)"
    by (simp add: post_tokenize_def http_post_def)
  then show ?thesis
    by (auto simp add: loop_body_def)
qed

text \<open>The response \<open>{"x": []}\<close> to a batch of one row and to an empty batch.\<close>

theorem post_tokenize_missing_records_witness:
  \<open>post_tokenize (demo_platform (\<lambda>rq s. (Response 200 ''{"x": []}'', Suc s)))
       [JObj [(''card'', JInt 4111)]] ''http://127.0.0.1:8080/tokenize'' None 30
       (demo_world Map.empty Map.empty 0)
     = (Inr (JArr []),
        \<lparr> environ = Map.empty, files = Map.empty, stdout = [], upstream = Suc 0,
          traffic = [(\<lparr> req_url = ''http://127.0.0.1:8080/tokenize'', req_headers = [],
                         req_json = JObj [(''records'', JArr [JObj [(''card'', JInt 4111)]])],
                         req_timeout = 30 \<rparr>,
                      Response 200 ''{"x": []}'')] \<rparr>)
   \<and> fst (loop_body (demo_platform (\<lambda>rq s. (Response 200 ''{"x": []}'', Suc s)))
            ''http://127.0.0.1:8080/tokenize'' [JObj [(''card'', JInt 4111)]] []
            (demo_world Map.empty Map.empty 0))
     = Inl (Exc RuntimeError ''Tokenization API returned 0 records, expected 1'')
   \<and> fst (loop_body (demo_platform (\<lambda>rq s. (Response 200 ''{"x": []}'', Suc s)))
            ''http://127.0.0.1:8080/tokenize'' [] [JObj [(''card'', JStr ''tok'')]]
            (demo_world Map.empty Map.empty 0))
     = Inr [JObj [(''card'', JStr ''tok'')]]\<close>
proof -
  let ?body = "[CHR 0x7B, CHR 0x22, CHR ''x'', CHR 0x22, CHR '':'', CHR '' '', CHR ''['', CHR '']'', CHR 0x7D]"
  let ?P = "demo_platform (\<lambda>rq s. (Response 200 ?body, Suc s))"
  let ?w = "demo_world Map.empty Map.empty (0::nat)"
  let ?api = "''http://127.0.0.1:8080/tokenize''"
  have h1: "\<And>recs. remote ?P (api_request ?api recs None 30) (upstream ?w) = (Response 200 ?body, Suc 0)"
    by (simp add: demo_platform_def demo_world_def)
  have h2: "is_success 200" by (simp add: is_success_def)
  have h3: "json_loads ?P ?body = Inr (JObj [(''x'', JArr [])])"
    by (simp add: demo_platform_def demo_loads_def)
  have h4: "map_of [(''x'', JArr [])] ''records'' = None" by simp
  show ?thesis
    using post_tokenize_missing_records [OF h1 h2 h3 h4, of "[JObj [(''card'', JInt 4111)]]" "[]"]
          post_tokenize_missing_records [OF h1 h2 h3 h4, of "[]" "[JObj [(''card'', JStr ''tok'')]]"]
    by (simp add: driver_eval)
qed

text \<open>
  C10 as stated fails for two kinds of response that are valid JSON without a
  \<open>records\<close> key: a body that is not an object, such as \<open>[]\<close>, ends in an
  \<open>AttributeError\<close>, and a non-2xx response, such as the 502 reply
  \<open>{"detail": "down"}\<close>, ends in the status error before the body is decoded.
\<close>

theorem post_tokenize_other_responses_counterexample:
  \<open>json_loads (demo_platform (\<lambda>rq s. (Response 200 ''[]'', Suc s))) ''[]'' = Inr (JArr [])
   \<and> fst (post_tokenize (demo_platform (\<lambda>rq s. (Response 200 ''[]'', Suc s)))
            [JObj [(''card'', JInt 4111)]] ''http://127.0.0.1:8080/tokenize'' None 30
            (demo_world Map.empty Map.empty 0))
     = Inl (Exc AttributeError ([CHR 0x27] @ ''list'' @ [CHR 0x27] @ '' object has no attribute ''
                                 @ [CHR 0x27] @ ''get'' @ [CHR 0x27]))
   \<and> json_loads (demo_platform (\<lambda>rq s. (Response 502 ''{"detail": "down"}'', Suc s)))
        ''{"detail": "down"}'' = Inr (JObj [(''detail'', JStr ''down'')])
   \<and> fst (post_tokenize (demo_platform (\<lambda>rq s. (Response 502 ''{"detail": "down"}'', Suc s)))
            [JObj [(''card'', JInt 4111)]] ''http://127.0.0.1:8080/tokenize'' None 30
            (demo_world Map.empty Map.empty 0))
     = Inl (Exc HTTPStatusError ''status 502 for url http://127.0.0.1:8080/tokenize'')\<close>
  by (simp add: driver_eval)

end
